theory Spec2Isabelle
  imports Main "HOL-Library.Word"
begin

unbundle bit_operations_syntax

section \<open>C strings and raw bytes\<close>

type_synonym byte = "8 word"

text \<open>
  A \<^verbatim>\<open>const char*\<close> argument is a \<open>byte list option\<close>: \<open>None\<close> is the null pointer,
  \<open>Some s\<close> points to the bytes \<open>s\<close>, of which C reads the part before the first NUL.
  A \<^verbatim>\<open>char[n]\<close> member is a byte list; \<open>fit n\<close> gives the \<open>n\<close> bytes it occupies.
\<close>

definition bytes_of :: "string \<Rightarrow> byte list" where
  "bytes_of s = map (\<lambda>c. of_nat (of_char c)) s"

definition c_str :: "byte list \<Rightarrow> byte list" where
  "c_str s = takeWhile (\<lambda>c. c \<noteq> 0) s"

definition strlen :: "byte list \<Rightarrow> nat" where
  "strlen s = length (c_str s)"

text \<open>\<^verbatim>\<open>strncpy(dst, src, n)\<close>: the \<open>n\<close> bytes written to \<open>dst\<close> (NUL padded, not
  terminated when \<open>src\<close> has \<open>n\<close> characters or more).\<close>

definition strncpy :: "byte list \<Rightarrow> nat \<Rightarrow> byte list" where
  "strncpy src n = take n (c_str src) @ replicate (n - strlen src) 0"

definition fit :: "nat \<Rightarrow> byte list \<Rightarrow> byte list" where
  "fit n xs = take n xs @ replicate (n - length xs) 0"

definition le16 :: "16 word \<Rightarrow> byte list" where
  "le16 w = [ucast w, ucast (drop_bit 8 w)]"

definition le32 :: "32 word \<Rightarrow> byte list" where
  "le32 w = [ucast w, ucast (drop_bit 8 w), ucast (drop_bit 16 w), ucast (drop_bit 24 w)]"

definition rd16 :: "byte list \<Rightarrow> 16 word" where
  "rd16 bs = ucast (bs ! 0) OR push_bit 8 (ucast (bs ! 1))"

definition rd32 :: "byte list \<Rightarrow> 32 word" where
  "rd32 bs = ucast (bs ! 0) OR push_bit 8 (ucast (bs ! 1))
             OR push_bit 16 (ucast (bs ! 2)) OR push_bit 24 (ucast (bs ! 3))"

definition slice :: "nat \<Rightarrow> nat \<Rightarrow> byte list \<Rightarrow> byte list" where
  "slice off n bs = take n (drop off bs)"

section \<open>The storage record (StorageManager.h)\<close>

abbreviation (input) STORAGE_VERSION :: byte where "STORAGE_VERSION \<equiv> 1"
abbreviation (input) STORAGE_MAGIC :: "32 word" where "STORAGE_MAGIC \<equiv> 0x50494345"
abbreviation (input) MAX_SSID_LENGTH :: nat where "MAX_SSID_LENGTH \<equiv> 32"
abbreviation (input) MAX_PASSWORD_LENGTH :: nat where "MAX_PASSWORD_LENGTH \<equiv> 64"
abbreviation (input) MAX_HOSTNAME_LENGTH :: nat where "MAX_HOSTNAME_LENGTH \<equiv> 32"

text \<open>
  The structs, member by member. A C++ \<^verbatim>\<open>bool\<close> member is kept as the byte that holds it
  (\<open>1\<close> for \<^verbatim>\<open>true\<close>, \<open>0\<close> for \<^verbatim>\<open>false\<close>, tested as nonzero), because
  \<^verbatim>\<open>calculateChecksum\<close> and \<^verbatim>\<open>EEPROM.get/put\<close> work on the raw bytes of the object.
  For the same reason the alignment padding of the 32-bit target (RP2040/RP2350: 4-byte
  aligned \<^verbatim>\<open>uint32_t\<close>, 2-byte aligned \<^verbatim>\<open>uint16_t\<close>, little endian) is part of the records:
  \<open>nc_pad\<close> are the 3 bytes after \<^verbatim>\<open>useStaticIP\<close>, \<open>pad_version\<close> the 3 bytes after
  \<^verbatim>\<open>version\<close>, \<open>pad_wifi\<close> the 3 bytes after \<^verbatim>\<open>wifi\<close>. The program never writes them;
  a constructed temporary has whatever bytes were there, so the constructors below take
  them as an argument.
\<close>

record WiFiCredentials =
  ssid :: "byte list"
  password :: "byte list"
  valid :: byte

record NetworkConfig =
  useStaticIP :: byte
  nc_pad :: "byte list"
  staticIP :: "32 word"
  gateway :: "32 word"
  subnet :: "32 word"
  primaryDNS :: "32 word"
  secondaryDNS :: "32 word"

record DeviceConfig =
  hostname :: "byte list"
  autoReconnect :: byte
  maxReconnectAttempts :: byte
  connectTimeout :: "16 word"

record StorageData =
  magic :: "32 word"
  version :: byte
  pad_version :: "byte list"
  checksum :: "32 word"
  wifi :: WiFiCredentials
  pad_wifi :: "byte list"
  network :: NetworkConfig
  device :: DeviceConfig
  reserved :: "byte list"

text \<open>The padding bytes of a freshly constructed \<^verbatim>\<open>StorageData\<close> temporary.\<close>

record Padding =
  after_version :: "byte list"
  after_wifi :: "byte list"
  in_network :: "byte list"

definition zero_padding :: Padding where
  "zero_padding = \<lparr>after_version = [0, 0, 0], after_wifi = [0, 0, 0], in_network = [0, 0, 0]\<rparr>"

text \<open>\<^verbatim>\<open>WiFiCredentials()\<close> and \<^verbatim>\<open>WiFiCredentials::clear()\<close>.\<close>

definition WiFiCredentials_ctor :: WiFiCredentials where
  "WiFiCredentials_ctor =
     \<lparr>ssid = replicate MAX_SSID_LENGTH 0, password = replicate MAX_PASSWORD_LENGTH 0, valid = 0\<rparr>"

definition clear :: "WiFiCredentials \<Rightarrow> WiFiCredentials" where
  "clear w = w\<lparr>ssid := replicate MAX_SSID_LENGTH 0,
               password := replicate MAX_PASSWORD_LENGTH 0, valid := 0\<rparr>"

text \<open>\<^verbatim>\<open>NetworkConfig()\<close>.\<close>

definition NetworkConfig_ctor :: "byte list \<Rightarrow> NetworkConfig" where
  "NetworkConfig_ctor pad =
     \<lparr>useStaticIP = 0, nc_pad = pad, staticIP = 0, gateway = 0, subnet = 0,
      primaryDNS = 0, secondaryDNS = 0\<rparr>"

text \<open>\<^verbatim>\<open>DeviceConfig()\<close>: hostname "pico2w", auto-reconnect on, 3 attempts, 30 seconds.\<close>

definition DeviceConfig_ctor :: DeviceConfig where
  "DeviceConfig_ctor =
     \<lparr>hostname = strncpy (bytes_of ''pico2w'') (MAX_HOSTNAME_LENGTH - 1) @ [0],
      autoReconnect = 1, maxReconnectAttempts = 3, connectTimeout = 30\<rparr>"

text \<open>\<^verbatim>\<open>StorageData()\<close>: the member constructors run first, then the body.\<close>

definition StorageData_ctor :: "Padding \<Rightarrow> StorageData" where
  "StorageData_ctor p =
     \<lparr>magic = STORAGE_MAGIC, version = STORAGE_VERSION, pad_version = after_version p,
      checksum = 0, wifi = WiFiCredentials_ctor, pad_wifi = after_wifi p,
      network = NetworkConfig_ctor (in_network p), device = DeviceConfig_ctor,
      reserved = replicate 64 0\<rparr>"

subsection \<open>Object representation\<close>

text \<open>The bytes of each object in memory, in address order.\<close>

definition image_WiFiCredentials :: "WiFiCredentials \<Rightarrow> byte list" where
  "image_WiFiCredentials w =
     fit MAX_SSID_LENGTH (ssid w) @ fit MAX_PASSWORD_LENGTH (password w) @ [valid w]"

definition image_NetworkConfig :: "NetworkConfig \<Rightarrow> byte list" where
  "image_NetworkConfig c =
     [useStaticIP c] @ fit 3 (nc_pad c) @ le32 (staticIP c) @ le32 (gateway c)
     @ le32 (subnet c) @ le32 (primaryDNS c) @ le32 (secondaryDNS c)"

definition image_DeviceConfig :: "DeviceConfig \<Rightarrow> byte list" where
  "image_DeviceConfig d =
     fit MAX_HOSTNAME_LENGTH (hostname d) @ [autoReconnect d, maxReconnectAttempts d]
     @ le16 (connectTimeout d)"

definition image :: "StorageData \<Rightarrow> byte list" where
  "image d =
     le32 (magic d) @ [version d] @ fit 3 (pad_version d) @ le32 (checksum d)
     @ image_WiFiCredentials (wifi d) @ fit 3 (pad_wifi d)
     @ image_NetworkConfig (network d) @ image_DeviceConfig (device d)
     @ fit 64 (reserved d)"

text \<open>
  The member arrays \<^verbatim>\<open>ssid\<close> and \<^verbatim>\<open>password\<close> used as \<^verbatim>\<open>const char*\<close>: the pointer sees the
  array and the bytes of the struct that follow it.
\<close>

definition ptr_ssid :: "WiFiCredentials \<Rightarrow> byte list" where
  "ptr_ssid w = image_WiFiCredentials w"

definition ptr_password :: "WiFiCredentials \<Rightarrow> byte list" where
  "ptr_password w = drop MAX_SSID_LENGTH (image_WiFiCredentials w)"

text \<open>\<^verbatim>\<open>sizeof(StorageData)\<close> and \<^verbatim>\<open>sizeof(data.checksum)\<close> under this layout.\<close>

abbreviation (input) sizeof_StorageData :: nat where "sizeof_StorageData \<equiv> 236"
abbreviation (input) sizeof_checksum :: nat where "sizeof_checksum \<equiv> 4"

text \<open>Reading an object back from its bytes (what \<^verbatim>\<open>EEPROM.get\<close> does with \<^verbatim>\<open>memcpy\<close>).\<close>

definition parse_WiFiCredentials :: "byte list \<Rightarrow> WiFiCredentials" where
  "parse_WiFiCredentials bs =
     \<lparr>ssid = slice 0 32 bs, password = slice 32 64 bs, valid = bs ! 96\<rparr>"

definition parse_NetworkConfig :: "byte list \<Rightarrow> NetworkConfig" where
  "parse_NetworkConfig bs =
     \<lparr>useStaticIP = bs ! 0, nc_pad = slice 1 3 bs, staticIP = rd32 (slice 4 4 bs),
      gateway = rd32 (slice 8 4 bs), subnet = rd32 (slice 12 4 bs),
      primaryDNS = rd32 (slice 16 4 bs), secondaryDNS = rd32 (slice 20 4 bs)\<rparr>"

definition parse_DeviceConfig :: "byte list \<Rightarrow> DeviceConfig" where
  "parse_DeviceConfig bs =
     \<lparr>hostname = slice 0 32 bs, autoReconnect = bs ! 32, maxReconnectAttempts = bs ! 33,
      connectTimeout = rd16 (slice 34 2 bs)\<rparr>"

definition parse :: "byte list \<Rightarrow> StorageData" where
  "parse bs =
     \<lparr>magic = rd32 (slice 0 4 bs), version = bs ! 4, pad_version = slice 5 3 bs,
      checksum = rd32 (slice 8 4 bs), wifi = parse_WiFiCredentials (slice 12 97 bs),
      pad_wifi = slice 109 3 bs, network = parse_NetworkConfig (slice 112 24 bs),
      device = parse_DeviceConfig (slice 136 36 bs), reserved = slice 172 64 bs\<rparr>"

section \<open>StorageManager (StorageManager.cpp)\<close>

text \<open>
  The backing medium is the Arduino \<^verbatim>\<open>EEPROM\<close> object, which is not part of the repository.
  It is modelled by what it holds: the bytes of the emulated region, from
  \<^verbatim>\<open>EEPROM_START_ADDRESS = 0\<close> on. \<^verbatim>\<open>EEPROM.get(0, _data)\<close> copies the first
  \<^verbatim>\<open>sizeof(StorageData)\<close> bytes out, \<^verbatim>\<open>EEPROM.put(0, _data)\<close> followed by
  \<^verbatim>\<open>EEPROM.commit()\<close> overwrites them; the region is taken to be large enough for the
  record (the size passed by the program is 512).
\<close>

type_synonym medium = "byte list"

definition EEPROM_get :: "medium \<Rightarrow> StorageData" where
  "EEPROM_get m = parse (take sizeof_StorageData m)"

definition EEPROM_put :: "StorageData \<Rightarrow> medium \<Rightarrow> medium" where
  "EEPROM_put d m = image d @ drop sizeof_StorageData m"

record StorageManager =
  initialized :: bool
  eepromSize :: nat
  data :: StorageData
  EEPROM :: medium

text \<open>\<^verbatim>\<open>StorageManager::StorageManager()\<close>, on a medium holding \<open>m\<close>.\<close>

definition StorageManager_ctor :: "Padding \<Rightarrow> medium \<Rightarrow> StorageManager" where
  "StorageManager_ctor p m =
     \<lparr>initialized = False, eepromSize = 512, data = StorageData_ctor p, EEPROM = m\<rparr>"

definition calculateChecksum :: "StorageData \<Rightarrow> 32 word" where
  "calculateChecksum d =
     fold (\<lambda>b checksum. checksum XOR ucast b)
          (take (sizeof_StorageData - sizeof_checksum) (image d)) 0"

definition isValidSSID :: "byte list option \<Rightarrow> bool" where
  "isValidSSID p =
     (case p of
        None \<Rightarrow> False
      | Some s \<Rightarrow>
          let len = strlen s in
          if len = 0 \<or> len > 31 then False
          else list_all (\<lambda>c. \<not> (c < 32 \<or> c > 126)) (c_str s))"

definition isValidPassword :: "byte list option \<Rightarrow> bool" where
  "isValidPassword p =
     (case p of None \<Rightarrow> True | Some s \<Rightarrow> if strlen s > 63 then False else True)"

definition validateData :: "StorageData \<Rightarrow> bool" where
  "validateData d =
     (if magic d \<noteq> STORAGE_MAGIC then False
      else if version d \<noteq> STORAGE_VERSION then False
      else if checksum d \<noteq> calculateChecksum d then False
      else if valid (wifi d) \<noteq> 0 \<and> \<not> isValidSSID (Some (ptr_ssid (wifi d))) then False
      else True)"

definition initializeDefaults :: "Padding \<Rightarrow> StorageManager \<Rightarrow> StorageManager" where
  "initializeDefaults p sm =
     sm\<lparr>data := (StorageData_ctor p)\<lparr>magic := STORAGE_MAGIC, version := STORAGE_VERSION,
                                     checksum := 0\<rparr>\<rparr>"

definition loadFromEEPROM :: "StorageManager \<Rightarrow> bool \<times> StorageManager" where
  "loadFromEEPROM sm =
     (let sm' = sm\<lparr>data := EEPROM_get (EEPROM sm)\<rparr> in (validateData (data sm'), sm'))"

definition saveToEEPROM :: "StorageManager \<Rightarrow> bool \<times> StorageManager" where
  "saveToEEPROM sm =
     (let d = (data sm)\<lparr>checksum := calculateChecksum (data sm)\<rparr>
      in (True, sm\<lparr>data := d, EEPROM := EEPROM_put d (EEPROM sm)\<rparr>))"

definition StorageManager_begin :: "nat \<Rightarrow> Padding \<Rightarrow> StorageManager \<Rightarrow> bool \<times> StorageManager" where
  "StorageManager_begin sz p sm =
     (let sm1 = sm\<lparr>eepromSize := sz\<rparr>;
          (ok, sm2) = loadFromEEPROM sm1;
          sm3 = (if \<not> ok then snd (saveToEEPROM (initializeDefaults p sm2)) else sm2)
      in (True, sm3\<lparr>initialized := True\<rparr>))"

definition format :: "Padding \<Rightarrow> StorageManager \<Rightarrow> StorageManager" where
  "format p sm = snd (saveToEEPROM (initializeDefaults p sm))"

definition saveWiFiCredentials ::
  "byte list option \<Rightarrow> byte list option \<Rightarrow> StorageManager \<Rightarrow> bool \<times> StorageManager" where
  "saveWiFiCredentials ssid_arg password_arg sm =
     (case ssid_arg of
        None \<Rightarrow> (False, sm)
      | Some s \<Rightarrow>
          if \<not> initialized sm then (False, sm)
          else
            let w1 = (wifi (data sm))\<lparr>ssid := strncpy s (MAX_SSID_LENGTH - 1) @ [0]\<rparr>;
                w2 = (case password_arg of
                        Some pw \<Rightarrow> w1\<lparr>password := strncpy pw (MAX_PASSWORD_LENGTH - 1) @ [0]\<rparr>
                      | None \<Rightarrow> w1\<lparr>password := replicate MAX_PASSWORD_LENGTH 0\<rparr>);
                w3 = w2\<lparr>valid := 1\<rparr>
            in saveToEEPROM (sm\<lparr>data := (data sm)\<lparr>wifi := w3\<rparr>\<rparr>))"

definition loadWiFiCredentials :: "StorageManager \<Rightarrow> bool \<times> WiFiCredentials option" where
  "loadWiFiCredentials sm =
     (if \<not> initialized sm then (False, None)
      else (valid (wifi (data sm)) \<noteq> 0, Some (wifi (data sm))))"

definition hasWiFiCredentials :: "StorageManager \<Rightarrow> bool" where
  "hasWiFiCredentials sm = (initialized sm \<and> valid (wifi (data sm)) \<noteq> 0)"

definition clearWiFiCredentials :: "StorageManager \<Rightarrow> StorageManager" where
  "clearWiFiCredentials sm =
     snd (saveToEEPROM (sm\<lparr>data := (data sm)\<lparr>wifi := clear (wifi (data sm))\<rparr>\<rparr>))"

definition saveNetworkConfig :: "NetworkConfig \<Rightarrow> StorageManager \<Rightarrow> bool \<times> StorageManager" where
  "saveNetworkConfig config sm =
     (if \<not> initialized sm then (False, sm)
      else saveToEEPROM (sm\<lparr>data := (data sm)\<lparr>network := config\<rparr>\<rparr>))"

definition clearNetworkConfig :: "byte list \<Rightarrow> StorageManager \<Rightarrow> StorageManager" where
  "clearNetworkConfig pad sm =
     snd (saveToEEPROM (sm\<lparr>data := (data sm)\<lparr>network := NetworkConfig_ctor pad\<rparr>\<rparr>))"

definition saveDeviceConfig :: "DeviceConfig \<Rightarrow> StorageManager \<Rightarrow> bool \<times> StorageManager" where
  "saveDeviceConfig config sm =
     (if \<not> initialized sm then (False, sm)
      else saveToEEPROM (sm\<lparr>data := (data sm)\<lparr>device := config\<rparr>\<rparr>))"

definition clearDeviceConfig :: "StorageManager \<Rightarrow> StorageManager" where
  "clearDeviceConfig sm =
     snd (saveToEEPROM (sm\<lparr>data := (data sm)\<lparr>device := DeviceConfig_ctor\<rparr>\<rparr>))"

definition saveAll ::
  "WiFiCredentials \<Rightarrow> NetworkConfig \<Rightarrow> DeviceConfig \<Rightarrow> StorageManager
   \<Rightarrow> bool \<times> StorageManager" where
  "saveAll w n dv sm =
     (if \<not> initialized sm then (False, sm)
      else saveToEEPROM (sm\<lparr>data := (data sm)\<lparr>wifi := w, network := n, device := dv\<rparr>\<rparr>))"

definition clearAll :: "byte list \<Rightarrow> StorageManager \<Rightarrow> StorageManager" where
  "clearAll pad sm =
     snd (saveToEEPROM
            (sm\<lparr>data := (data sm)\<lparr>wifi := clear (wifi (data sm)),
                                   network := NetworkConfig_ctor pad,
                                   device := DeviceConfig_ctor\<rparr>\<rparr>))"


section \<open>PicoWiFiManager (PicoWiFiManager.h, PicoWiFiManager.cpp)\<close>

datatype ConnectionStatus = DISCONNECTED | CONNECTING | CONNECTED | CONFIG_MODE | ERROR

record PicoWiFiConfig =
  deviceName :: "byte list"
  apPassword :: "byte list"
  configPortalTimeout :: "16 word"
  cfg_connectTimeout :: "16 word"
  cfg_maxReconnectAttempts :: byte
  cfg_autoReconnect :: bool
  enableSerial :: bool
  ledPin :: byte
  resetPin :: byte
  cfg_useStaticIP :: bool

text \<open>The defaults of \<^verbatim>\<open>struct PicoWiFiConfig\<close>; \<^verbatim>\<open>LED_BUILTIN\<close> comes from the board package.\<close>

definition PicoWiFiConfig_ctor :: "byte \<Rightarrow> PicoWiFiConfig" where
  "PicoWiFiConfig_ctor LED_BUILTIN =
     \<lparr>deviceName = fit 32 (bytes_of ''Pico2W''), apPassword = fit 64 (bytes_of ''picowifi123''),
      configPortalTimeout = 300, cfg_connectTimeout = 30, cfg_maxReconnectAttempts = 3,
      cfg_autoReconnect = True, enableSerial = True, ledPin = LED_BUILTIN, resetPin = 2,
      cfg_useStaticIP = False\<rparr>"

text \<open>
  What the program does to the outside, in order: assignments of a new value to
  \<^verbatim>\<open>_status\<close> (\<open>Transition\<close>, the "Status changed to" line), calls of the registered
  callbacks, calls of the radio (\<^verbatim>\<open>WiFi\<close>) and of \<^verbatim>\<open>rp2040.restart()\<close>, and the start of an
  autonomous retry in \<^verbatim>\<open>handleReconnection\<close> (the "Reconnection attempt" line).
\<close>

datatype event =
    Transition ConnectionStatus
  | Notify ConnectionStatus
  | OnConfigStart
  | OnConfigEnd
  | OnConnect
  | ReconnectionAttempt
  | WiFi_disconnect
  | WiFi_begin "byte list" "byte list option"
  | WiFi_softAP "byte list" "byte list option"
  | WiFi_softAPdisconnect
  | Restart

text \<open>\<^verbatim>\<open>ConfigPortal\<close>: the members the orchestrator depends on.\<close>

record ConfigPortal =
  active :: bool
  timeout :: "32 word"
  portal_startTime :: "32 word"

definition ConfigPortal_ctor :: ConfigPortal where
  "ConfigPortal_ctor = \<lparr>active = False, timeout = 300000, portal_startTime = 0\<rparr>"

text \<open>
  The manager once \<^verbatim>\<open>begin()\<close> has created \<^verbatim>\<open>_storage\<close> and \<^verbatim>\<open>_portal\<close> (both pointers are
  then never null, and \<^verbatim>\<open>_server\<close> stays null). Of the configuration, the address members,
  which only \<^verbatim>\<open>WiFi.config\<close> reads, are left out. \<open>pressStart\<close> and \<open>pressed\<close> are the
  function-local statics of \<^verbatim>\<open>checkResetButton\<close>. The \<open>\<dots>_set\<close> members say whether the
  corresponding \<^verbatim>\<open>std::function\<close> callback is registered. \<^verbatim>\<open>rp2040.restart()\<close> does not
  return: once \<open>restarted\<close> is set, nothing more of the program runs.
\<close>

record PicoWiFiManager =
  config :: PicoWiFiConfig
  status :: ConnectionStatus
  portal :: ConfigPortal
  storage :: StorageManager
  isInitialized :: bool
  configMode :: bool
  lastReconnectAttempt :: "32 word"
  reconnectAttempts :: byte
  pressStart :: "32 word"
  pressed :: bool
  onConfigStart_set :: bool
  onConfigEnd_set :: bool
  onConnect_set :: bool
  onStatusChange_set :: bool
  events :: "event list"
  restarted :: bool

datatype portal_request = NoRequest | ConnectRequest "byte list" "byte list" | ResetRequest

text \<open>
  What one call of \<^verbatim>\<open>loop()\<close> reads from the outside: the values of \<^verbatim>\<open>millis()\<close> at the
  places that read it (in \<^verbatim>\<open>ConfigPortal::handle\<close>, \<^verbatim>\<open>checkResetButton\<close>,
  \<^verbatim>\<open>handleReconnection\<close>, and in \<^verbatim>\<open>ConfigPortal::start\<close> when one of the latter two starts
  the portal), the reset pin, the radio's answers, the request the web server
  dispatches, and the padding of the \<^verbatim>\<open>NetworkConfig\<close> temporary of \<^verbatim>\<open>clearAll\<close>.
  In \<^verbatim>\<open>connectWiFi\<close> the polling loop on \<^verbatim>\<open>WiFi.status()\<close> ends after at most
  \<^verbatim>\<open>connectTimeout\<close> seconds; \<open>join_ok\<close> is the status test that follows it.
\<close>

record Env =
  millis_portal :: "32 word"
  millis_button :: "32 word"
  millis_reconnect :: "32 word"
  button_portal_millis :: "32 word"
  reconnect_portal_millis :: "32 word"
  resetPin_low :: bool
  wifi_connected :: bool
  portal_join_ok :: bool
  reconnect_join_ok :: bool
  button_softAP_ok :: bool
  reconnect_softAP_ok :: bool
  request :: portal_request
  fresh_pad :: "byte list"

definition emit :: "event \<Rightarrow> PicoWiFiManager \<Rightarrow> PicoWiFiManager" where
  "emit e s = s\<lparr>events := events s @ [e]\<rparr>"

definition callback :: "bool \<Rightarrow> event \<Rightarrow> PicoWiFiManager \<Rightarrow> PicoWiFiManager" where
  "callback registered e s = (if registered then emit e s else s)"

definition setStatus :: "ConnectionStatus \<Rightarrow> PicoWiFiManager \<Rightarrow> PicoWiFiManager" where
  "setStatus st s =
     (if status s \<noteq> st
      then callback (onStatusChange_set s) (Notify st) (emit (Transition st) (s\<lparr>status := st\<rparr>))
      else s)"

text \<open>
  \<^verbatim>\<open>ConfigPortal::start\<close> and \<^verbatim>\<open>ConfigPortal::stop\<close>, on the manager that owns the portal.
  \<open>softAP_ok\<close> is the result of \<^verbatim>\<open>WiFi.softAP\<close>; \<open>start_millis\<close> is the \<^verbatim>\<open>millis()\<close> that
  \<^verbatim>\<open>start\<close> itself reads, after its delays, into \<^verbatim>\<open>_startTime\<close>.
\<close>

definition portal_start ::
  "byte list \<Rightarrow> byte list option \<Rightarrow> bool \<Rightarrow> 32 word \<Rightarrow> PicoWiFiManager
   \<Rightarrow> bool \<times> PicoWiFiManager" where
  "portal_start ap_ssid ap_password softAP_ok start_millis s =
     (let s1 = emit WiFi_disconnect s;
          s2 = (case ap_password of
                  None \<Rightarrow> emit (WiFi_softAP (c_str ap_ssid) None) s1
                | Some pw \<Rightarrow>
                    if strlen pw > 0
                    then emit (WiFi_softAP (c_str ap_ssid) (Some (c_str pw))) s1
                    else emit (WiFi_softAP (c_str ap_ssid) None) s1)
      in if \<not> softAP_ok then (False, s2)
         else (True, s2\<lparr>portal := (portal s2)\<lparr>active := True,
                                              portal_startTime := start_millis\<rparr>\<rparr>))"

definition portal_stop :: "PicoWiFiManager \<Rightarrow> PicoWiFiManager" where
  "portal_stop s =
     (if active (portal s)
      then emit WiFi_softAPdisconnect (s\<lparr>portal := (portal s)\<lparr>active := False\<rparr>\<rparr>)
      else s)"

definition startConfigPortal :: "bool \<Rightarrow> 32 word \<Rightarrow> PicoWiFiManager \<Rightarrow> bool \<times> PicoWiFiManager" where
  "startConfigPortal softAP_ok start_millis s =
     (let s1 = callback (onConfigStart_set s) OnConfigStart s;
          s2 = s1\<lparr>configMode := True\<rparr>;
          s3 = setStatus CONFIG_MODE s2;
          (started, s4) = portal_start (deviceName (config s3)) (Some (apPassword (config s3)))
                            softAP_ok start_millis s3
      in if started then (True, s4)
         else (False, setStatus ERROR (s4\<lparr>configMode := False\<rparr>)))"

definition stopConfigPortal :: "PicoWiFiManager \<Rightarrow> PicoWiFiManager" where
  "stopConfigPortal s =
     (if \<not> configMode s then s
      else let s1 = portal_stop s;
               s2 = s1\<lparr>configMode := False\<rparr>
           in callback (onConfigEnd_set s2) OnConfigEnd s2)"

definition connectWiFi ::
  "byte list option \<Rightarrow> byte list option \<Rightarrow> bool \<Rightarrow> PicoWiFiManager
   \<Rightarrow> bool \<times> PicoWiFiManager" where
  "connectWiFi ssid_arg password_arg join_ok s =
     (case ssid_arg of
        None \<Rightarrow> (False, s)
      | Some n \<Rightarrow>
          if strlen n = 0 then (False, s)
          else
            let s1 = setStatus CONNECTING s;
                s2 = emit WiFi_disconnect s1;
                s3 = (case password_arg of
                        None \<Rightarrow> emit (WiFi_begin (c_str n) None) s2
                      | Some pw \<Rightarrow>
                          if strlen pw > 0 then emit (WiFi_begin (c_str n) (Some (c_str pw))) s2
                          else emit (WiFi_begin (c_str n) None) s2)
            in if join_ok
               then let s4 = setStatus CONNECTED s3;
                        s5 = s4\<lparr>reconnectAttempts := 0\<rparr>
                    in (True, callback (onConnect_set s5) OnConnect s5)
               else (False, setStatus DISCONNECTED s3))"

definition handleReconnection :: "Env \<Rightarrow> PicoWiFiManager \<Rightarrow> PicoWiFiManager" where
  "handleReconnection env s =
     (if wifi_connected env \<or> configMode s then s
      else
        let now = millis_reconnect env in
        if now - lastReconnectAttempt s < 10000 then s
        else if reconnectAttempts s \<ge> cfg_maxReconnectAttempts (config s)
        then snd (startConfigPortal (reconnect_softAP_ok env) (reconnect_portal_millis env) s)
        else
          let s1 = emit ReconnectionAttempt s;
              s2 = s1\<lparr>lastReconnectAttempt := now, reconnectAttempts := reconnectAttempts s1 + 1\<rparr>
          in case loadWiFiCredentials (storage s2) of
               (True, Some credentials) \<Rightarrow>
                 if valid credentials \<noteq> 0
                 then snd (connectWiFi (Some (ptr_ssid credentials))
                             (Some (ptr_password credentials)) (reconnect_join_ok env) s2)
                 else s2
             | _ \<Rightarrow> s2)"

definition reset :: "byte list \<Rightarrow> PicoWiFiManager \<Rightarrow> PicoWiFiManager" where
  "reset pad s =
     (let s1 = stopConfigPortal s;
          s2 = emit WiFi_disconnect s1;
          s3 = s2\<lparr>storage := clearAll pad (storage s2)\<rparr>
      in (emit Restart s3)\<lparr>restarted := True\<rparr>)"

definition checkResetButton :: "Env \<Rightarrow> PicoWiFiManager \<Rightarrow> PicoWiFiManager" where
  "checkResetButton env s =
     (if resetPin (config s) = 255 then s
      else
        let currentState = resetPin_low env in
        if currentState \<and> \<not> pressed s
        then s\<lparr>pressed := True, pressStart := millis_button env\<rparr>
        else if \<not> currentState \<and> pressed s
        then
          let s1 = s\<lparr>pressed := False\<rparr>;
              pressDuration = millis_button env - pressStart s1
          in if pressDuration > 3000 then reset (fresh_pad env) s1
             else if pressDuration > 100
             then (if \<not> configMode s1
                   then snd (startConfigPortal (button_softAP_ok env)
                              (button_portal_millis env) s1)
                   else s1)
             else s1
        else s)"

text \<open>
  \<^verbatim>\<open>ConfigPortal::handle\<close>: the web server dispatches at most one request, to
  \<^verbatim>\<open>handleConnect\<close> or \<^verbatim>\<open>handleReset\<close>, which call the lambdas that
  \<^verbatim>\<open>PicoWiFiManager::begin\<close> registered; then the portal's own timeout is checked.
\<close>

definition portal_onConnect :: "byte list \<Rightarrow> byte list \<Rightarrow> bool \<Rightarrow> PicoWiFiManager \<Rightarrow> PicoWiFiManager" where
  "portal_onConnect ssid_arg password_arg join_ok s =
     (case connectWiFi (Some ssid_arg) (Some password_arg) join_ok s of
        (True, s1) \<Rightarrow>
          let s2 = s1\<lparr>storage := snd (saveWiFiCredentials (Some ssid_arg) (Some password_arg)
                                         (storage s1))\<rparr>;
              s3 = stopConfigPortal s2
          in setStatus CONNECTED s3
      | (False, s1) \<Rightarrow> s1)"

definition portal_handle :: "Env \<Rightarrow> PicoWiFiManager \<Rightarrow> PicoWiFiManager" where
  "portal_handle env s =
     (if \<not> active (portal s) then s
      else
        let s1 = (case request env of
                    NoRequest \<Rightarrow> s
                  | ConnectRequest n pw \<Rightarrow>
                      if length n = 0 then s else portal_onConnect n pw (portal_join_ok env) s
                  | ResetRequest \<Rightarrow> reset (fresh_pad env) s)
        in if restarted s1 then s1
           else if timeout (portal s1) > 0
                   \<and> millis_portal env - portal_startTime (portal s1) > timeout (portal s1)
           then portal_stop s1
           else s1)"

text \<open>
  \<^verbatim>\<open>PicoWiFiManager::loop\<close>. \<^verbatim>\<open>updateLED\<close> only drives the LED pin and \<^verbatim>\<open>_server\<close> is null,
  so neither appears.
\<close>

definition loop :: "Env \<Rightarrow> PicoWiFiManager \<Rightarrow> PicoWiFiManager" where
  "loop env s =
     (if \<not> isInitialized s \<or> restarted s then s
      else
        let s1 = (if active (portal s) then portal_handle env s else s) in
        if restarted s1 then s1
        else
          let s2 = checkResetButton env s1 in
          if restarted s2 then s2
          else if \<not> configMode s2 \<and> cfg_autoReconnect (config s2)
          then handleReconnection env s2
          else s2)"

text \<open>Successive calls of \<^verbatim>\<open>loop()\<close>, one per element of the list.\<close>

definition run :: "Env list \<Rightarrow> PicoWiFiManager \<Rightarrow> PicoWiFiManager" where
  "run envs s = fold loop envs s"


section \<open>Observations and concrete inputs\<close>

text \<open>The bytes of the record as the medium holds them.\<close>

definition persisted :: "StorageManager \<Rightarrow> byte list" where
  "persisted sm = take sizeof_StorageData (EEPROM sm)"

text \<open>An erased flash sector reads as \<open>0xFF\<close> everywhere; the region has 512 bytes.\<close>

definition erased_medium :: medium where
  "erased_medium = replicate 512 0xFF"

text \<open>A store never opened, a store opened on erased flash, and that store after
  credentials were saved.\<close>

definition unopened_store :: StorageManager where
  "unopened_store = StorageManager_ctor zero_padding erased_medium"

definition fresh_store :: StorageManager where
  "fresh_store = snd (StorageManager_begin 512 zero_padding unopened_store)"

definition home_store :: StorageManager where
  "home_store =
     snd (saveWiFiCredentials (Some (bytes_of ''Home'')) (Some (bytes_of ''secret'')) fresh_store)"

text \<open>A 33-byte ssid, and the characters \<^verbatim>\<open>isValidSSID\<close> lets through.\<close>

definition ssid33 :: "byte list" where
  "ssid33 = replicate 33 0x41"

definition printable :: "byte \<Rightarrow> bool" where
  "printable c = (32 \<le> c \<and> c \<le> 126)"

definition password64 :: "byte list" where
  "password64 = replicate 64 0x61"


text \<open>The store after \<^verbatim>\<open>saveWiFiCredentials("S", "")\<close> on the fresh store.\<close>

definition s_store :: StorageManager where
  "s_store = snd (saveWiFiCredentials (Some (bytes_of ''S'')) (Some []) fresh_store)"

text \<open>The records these stores hold, written out.\<close>

definition default_record :: StorageData where
  "default_record = (StorageData_ctor zero_padding)\<lparr>checksum := 0x52\<rparr>"

definition home_record :: StorageData where
  "home_record = default_record
     \<lparr>wifi := \<lparr>ssid = fit 32 (bytes_of ''Home''), password = fit 64 (bytes_of ''secret''),
               valid = 1\<rparr>,
      checksum := 0x38\<rparr>"

definition s_record :: StorageData where
  "s_record = default_record
     \<lparr>wifi := \<lparr>ssid = fit 32 (bytes_of ''S''), password = fit 64 [], valid = 1\<rparr>\<rparr>"

text \<open>The store after \<^verbatim>\<open>saveWiFiCredentials("", "x")\<close> on the fresh store, and its record.\<close>

definition empty_ssid_store :: StorageManager where
  "empty_ssid_store = snd (saveWiFiCredentials (Some []) (Some (bytes_of ''x'')) fresh_store)"

definition empty_ssid_record :: StorageData where
  "empty_ssid_record = default_record
     \<lparr>wifi := \<lparr>ssid = replicate 32 0, password = fit 64 (bytes_of ''x''), valid = 1\<rparr>,
      checksum := 0x79\<rparr>"

definition corrupted_record :: StorageData where
  "corrupted_record = s_record\<lparr>reserved := replicate 63 0 @ [7]\<rparr>"

subsection \<open>The orchestrator\<close>

text \<open>\<^verbatim>\<open>PicoWiFiManager::onStatusChange\<close> with a non-empty callback.\<close>

definition onStatusChange :: "PicoWiFiManager \<Rightarrow> PicoWiFiManager" where
  "onStatusChange s = s\<lparr>onStatusChange_set := True\<rparr>"

text \<open>
  The manager after its constructor and \<^verbatim>\<open>begin()\<close> have run on a medium holding \<open>m\<close>:
  the storage is opened, the portal created, and \<^verbatim>\<open>setStatus(DISCONNECTED)\<close> changes nothing.
\<close>

definition PicoWiFiManager_begin :: "PicoWiFiConfig \<Rightarrow> Padding \<Rightarrow> medium \<Rightarrow> PicoWiFiManager" where
  "PicoWiFiManager_begin cfg p m =
     \<lparr>config = cfg, status = DISCONNECTED, portal = ConfigPortal_ctor,
      storage = snd (StorageManager_begin 512 p (StorageManager_ctor p m)),
      isInitialized = True, configMode = False, lastReconnectAttempt = 0,
      reconnectAttempts = 0, pressStart = 0, pressed = False,
      onConfigStart_set = False, onConfigEnd_set = False, onConnect_set = False,
      onStatusChange_set = False, events = [], restarted = False\<rparr>"

text \<open>The statuses the observer was called with, in order.\<close>

definition notified :: "PicoWiFiManager \<Rightarrow> ConnectionStatus list" where
  "notified s = concat (map (\<lambda>e. case e of Notify st \<Rightarrow> [st] | _ \<Rightarrow> []) (events s))"

text \<open>Of a sequence of requested statuses, those that differ from the status current at
  their turn.\<close>

fun changes :: "ConnectionStatus \<Rightarrow> ConnectionStatus list \<Rightarrow> ConnectionStatus list" where
  "changes cur [] = []"
| "changes cur (x # xs) = (if x \<noteq> cur then x # changes x xs else changes cur xs)"

text \<open>How many autonomous retries were started, and how many times the status became
  \<open>CONFIG_MODE\<close>.\<close>

definition attempts_made :: "PicoWiFiManager \<Rightarrow> nat" where
  "attempts_made s = count_list (events s) ReconnectionAttempt"

definition entries :: "PicoWiFiManager \<Rightarrow> nat" where
  "entries s = count_list (events s) (Transition CONFIG_MODE)"

text \<open>
  A run of calls of \<^verbatim>\<open>loop()\<close> in which the link is down, the join of each retry fails, the
  reset pin stays high, and each call comes at least 10 seconds after the previous retry
  (\<open>prev\<close> is the time of that retry).
\<close>

fun failing_ticks :: "32 word \<Rightarrow> Env list \<Rightarrow> bool" where
  "failing_ticks prev [] = True"
| "failing_ticks prev (e # es) =
     (\<not> wifi_connected e \<and> \<not> reconnect_join_ok e \<and> \<not> resetPin_low e
      \<and> 10000 \<le> millis_reconnect e - prev \<and> failing_ticks (millis_reconnect e) es)"

text \<open>A run of calls of \<^verbatim>\<open>loop()\<close> without portal requests after each of which the manager is
  in config mode.\<close>

fun stays_in_config :: "Env list \<Rightarrow> PicoWiFiManager \<Rightarrow> bool" where
  "stays_in_config [] s = True"
| "stays_in_config (e # es) s =
     (request e = NoRequest \<and> configMode (loop e s) \<and> stays_in_config es (loop e s))"

text \<open>
  The orchestrator retrying on its own: initialized, not restarted, outside config mode with
  auto-reconnect on, portal stopped, reset button not held, status not \<open>CONFIG_MODE\<close>.
\<close>

definition reconnecting :: "PicoWiFiManager \<Rightarrow> bool" where
  "reconnecting s =
     (isInitialized s \<and> \<not> restarted s \<and> \<not> configMode s \<and> cfg_autoReconnect (config s)
      \<and> \<not> active (portal s) \<and> \<not> pressed s \<and> status s \<noteq> CONFIG_MODE)"

text \<open>
  One press-and-release cycle of the reset button as \<^verbatim>\<open>checkResetButton\<close> sees it: the call
  \<open>p\<close> that reads the pin low first, the calls \<open>hs\<close> while it stays low, and the call \<open>r\<close> that
  reads it high again.
\<close>

definition press_release :: "Env \<Rightarrow> Env list \<Rightarrow> Env \<Rightarrow> PicoWiFiManager \<Rightarrow> PicoWiFiManager" where
  "press_release p hs r s = checkResetButton r (fold checkResetButton hs (checkResetButton p s))"

text \<open>Concrete managers and calls of \<^verbatim>\<open>loop()\<close>.\<close>

definition demo_manager :: PicoWiFiManager where
  "demo_manager =
     onStatusChange (PicoWiFiManager_begin (PicoWiFiConfig_ctor 25) zero_padding erased_medium)"

definition home_manager :: PicoWiFiManager where
  "home_manager = demo_manager\<lparr>storage := home_store\<rparr>"

definition idle_tick :: "32 word \<Rightarrow> Env" where
  "idle_tick t =
     \<lparr>millis_portal = t, millis_button = t, millis_reconnect = t,
      button_portal_millis = t + 1100, reconnect_portal_millis = t + 1100, resetPin_low = False,
      wifi_connected = False, portal_join_ok = False, reconnect_join_ok = False,
      button_softAP_ok = True, reconnect_softAP_ok = True, request = NoRequest,
      fresh_pad = [0, 0, 0]\<rparr>"

text \<open>A call like \<open>idle_tick\<close> on which \<^verbatim>\<open>WiFi.softAP\<close> fails, and the manager after three
  failed retries.\<close>

definition ap_fail_tick :: "32 word \<Rightarrow> Env" where
  "ap_fail_tick t = (idle_tick t)\<lparr>reconnect_softAP_ok := False\<rparr>"

definition three_failures :: PicoWiFiManager where
  "three_failures = run [idle_tick 10000, idle_tick 20000, idle_tick 30000] home_manager"

definition button_tick :: "32 word \<Rightarrow> bool \<Rightarrow> Env" where
  "button_tick t low = (idle_tick t)\<lparr>resetPin_low := low\<rparr>"

text \<open>A release call at which \<^verbatim>\<open>WiFi.softAP\<close> fails; the manager after a 500 ms press started
  the portal; and that manager after a call of \<^verbatim>\<open>loop()\<close> past the portal's timeout.\<close>

definition button_ap_fail_tick :: "32 word \<Rightarrow> Env" where
  "button_ap_fail_tick t = (button_tick t False)\<lparr>button_softAP_ok := False\<rparr>"

definition portal_started_manager :: PicoWiFiManager where
  "portal_started_manager =
     press_release (button_tick 1000 True) [] (button_tick 1500 False) home_manager"

definition timed_out_manager :: PicoWiFiManager where
  "timed_out_manager = loop (idle_tick 400000) portal_started_manager"

section \<open>Facts about the byte-level helpers\<close>

lemma length_fit [simp]: "length (fit n xs) = n"
  by (simp add: fit_def)

lemma length_le32 [simp]: "length (le32 w) = 4"
  by (simp add: le32_def)

lemma length_le16 [simp]: "length (le16 w) = 2"
  by (simp add: le16_def)

lemma length_image [simp]: "length (image d) = sizeof_StorageData"
  by (simp add: image_def image_WiFiCredentials_def image_NetworkConfig_def
      image_DeviceConfig_def)

lemma c_str_nonzero: "x \<in> set (c_str s) \<Longrightarrow> x \<noteq> 0"
  by (auto simp: c_str_def dest: set_takeWhileD)

lemma c_str_zeros: "c_str (replicate k 0 @ [0]) = []"
  by (cases k) (simp_all add: c_str_def)

lemma c_str_no_zero: "\<forall>x \<in> set xs. x \<noteq> 0 \<Longrightarrow> c_str (xs @ ys) = xs @ c_str ys"
  unfolding c_str_def by (rule takeWhile_append2) simp

lemma c_str_strncpy: "c_str (strncpy src n @ [0]) = take n (c_str src)"
proof -
  have "\<forall>x \<in> set (take n (c_str src)). x \<noteq> 0"
    by (auto dest: in_set_takeD c_str_nonzero)
  then have "c_str (take n (c_str src) @ (replicate (n - strlen src) 0 @ [0]))
             = take n (c_str src) @ c_str (replicate (n - strlen src) 0 @ [0])"
    by (rule c_str_no_zero)
  then show ?thesis
    by (simp add: strncpy_def c_str_zeros)
qed

section \<open>The write path\<close>

lemma persisted_EEPROM_put:
  "take sizeof_StorageData (EEPROM_put d m) = image d"
  by (simp add: EEPROM_put_def)

lemma saveToEEPROM_persisted:
  "persisted (snd (saveToEEPROM sm)) = image (data (snd (saveToEEPROM sm)))"
  by (simp add: saveToEEPROM_def persisted_def Let_def persisted_EEPROM_put)

lemma saveToEEPROM_fields:
  "fst (saveToEEPROM sm) = True"
  "wifi (data (snd (saveToEEPROM sm))) = wifi (data sm)"
  "network (data (snd (saveToEEPROM sm))) = network (data sm)"
  "device (data (snd (saveToEEPROM sm))) = device (data sm)"
  "initialized (snd (saveToEEPROM sm)) = initialized sm"
  by (simp_all add: saveToEEPROM_def Let_def)

lemma initialized_fresh_store: "initialized fresh_store"
  by (simp add: fresh_store_def StorageManager_begin_def Let_def split_def)

section \<open>Saving credentials\<close>

text \<open>
  Claim C10. On an initialized store, \<^verbatim>\<open>saveWiFiCredentials\<close> with a non-null ssid and a null
  password pointer succeeds: the password field is all zero, \<^verbatim>\<open>wifi.valid\<close> is set, and the
  medium holds the bytes of the record now in memory.
\<close>

theorem saveWiFiCredentials_null_password:
  "initialized sm \<Longrightarrow> saveWiFiCredentials (Some s) None sm = (r, sm') \<Longrightarrow>
     r = True \<and> password (wifi (data sm')) = replicate MAX_PASSWORD_LENGTH 0
     \<and> valid (wifi (data sm')) = 1 \<and> persisted sm' = image (data sm')"
proof -
  assume i: "initialized sm" and e: "saveWiFiCredentials (Some s) None sm = (r, sm')"
  define sm0 where "sm0 = sm\<lparr>data := (data sm)\<lparr>wifi := (wifi (data sm))
      \<lparr>ssid := strncpy s (MAX_SSID_LENGTH - 1) @ [0], password := replicate MAX_PASSWORD_LENGTH 0,
        valid := 1\<rparr>\<rparr>\<rparr>"
  from i e have "saveToEEPROM sm0 = (r, sm')"
    by (simp add: saveWiFiCredentials_def sm0_def)
  then have r: "r = fst (saveToEEPROM sm0)" and s: "sm' = snd (saveToEEPROM sm0)"
    by simp_all
  show ?thesis
    unfolding r s by (simp add: saveToEEPROM_fields saveToEEPROM_persisted) (simp add: sm0_def)
qed

theorem saveWiFiCredentials_null_password_witness:
  "initialized fresh_store
   \<and> fst (saveWiFiCredentials (Some (bytes_of ''Home'')) None fresh_store) = True
   \<and> password (wifi (data (snd (saveWiFiCredentials (Some (bytes_of ''Home'')) None fresh_store))))
       = replicate 64 0
   \<and> valid (wifi (data (snd (saveWiFiCredentials (Some (bytes_of ''Home'')) None fresh_store)))) = 1
   \<and> persisted (snd (saveWiFiCredentials (Some (bytes_of ''Home'')) None fresh_store))
       = image (data (snd (saveWiFiCredentials (Some (bytes_of ''Home'')) None fresh_store)))"
  using initialized_fresh_store
    saveWiFiCredentials_null_password [OF initialized_fresh_store,
      of "bytes_of ''Home''"
         "fst (saveWiFiCredentials (Some (bytes_of ''Home'')) None fresh_store)"
         "snd (saveWiFiCredentials (Some (bytes_of ''Home'')) None fresh_store)"]
  by simp


section \<open>Concrete stores, evaluated\<close>

lemma saveToEEPROM_data:
  "data (snd (saveToEEPROM sm)) = (data sm)\<lparr>checksum := calculateChecksum (data sm)\<rparr>"
  by (simp add: saveToEEPROM_def Let_def)

lemma saveToEEPROM_EEPROM:
  "EEPROM (snd (saveToEEPROM sm)) = image (data (snd (saveToEEPROM sm))) @ drop 236 (EEPROM sm)"
  by (simp add: saveToEEPROM_def Let_def EEPROM_put_def)

lemma EEPROM_get_image: "EEPROM_get (image d @ m) = parse (image d)"
  by (simp add: EEPROM_get_def)

lemma saveWiFiCredentials_data:
  "initialized sm \<Longrightarrow>
   data (snd (saveWiFiCredentials (Some s) (Some pw) sm)) =
     (data sm)\<lparr>wifi := (wifi (data sm))\<lparr>ssid := strncpy s 31 @ [0],
                                        password := strncpy pw 63 @ [0], valid := 1\<rparr>,
               checksum := calculateChecksum
                 ((data sm)\<lparr>wifi := (wifi (data sm))\<lparr>ssid := strncpy s 31 @ [0],
                                        password := strncpy pw 63 @ [0], valid := 1\<rparr>\<rparr>)\<rparr>"
  by (simp add: saveWiFiCredentials_def Let_def saveToEEPROM_data)

lemma saveWiFiCredentials_EEPROM:
  "initialized sm \<Longrightarrow>
   EEPROM (snd (saveWiFiCredentials (Some s) pw sm)) =
     image (data (snd (saveWiFiCredentials (Some s) pw sm))) @ drop 236 (EEPROM sm)"
  by (cases pw) (simp_all add: saveWiFiCredentials_def Let_def saveToEEPROM_EEPROM)

lemma erased_invalid: "validateData (EEPROM_get erased_medium) = False"
  by code_simp

lemma checksum_ctor: "calculateChecksum (StorageData_ctor zero_padding) = 0x52"
  by code_simp

lemma initializeDefaults_data: "data (initializeDefaults p sm) = StorageData_ctor p"
  by (simp add: initializeDefaults_def StorageData_ctor_def)

lemma data_fresh_store: "data fresh_store = default_record"
  by (simp add: fresh_store_def unopened_store_def StorageManager_begin_def loadFromEEPROM_def
      StorageManager_ctor_def erased_invalid saveToEEPROM_data initializeDefaults_data
      checksum_ctor default_record_def)

lemma EEPROM_fresh_store: "EEPROM fresh_store = image default_record @ drop 236 erased_medium"
  using data_fresh_store
  by (simp add: fresh_store_def unopened_store_def StorageManager_begin_def loadFromEEPROM_def
      StorageManager_ctor_def erased_invalid saveToEEPROM_EEPROM initializeDefaults_def)

lemma home_record_eq:
  "default_record\<lparr>wifi := (wifi default_record)\<lparr>ssid := strncpy (bytes_of ''Home'') 31 @ [0],
       password := strncpy (bytes_of ''secret'') 63 @ [0], valid := 1\<rparr>,
     checksum := calculateChecksum (default_record\<lparr>wifi := (wifi default_record)
       \<lparr>ssid := strncpy (bytes_of ''Home'') 31 @ [0],
        password := strncpy (bytes_of ''secret'') 63 @ [0], valid := 1\<rparr>\<rparr>)\<rparr> = home_record"
  by code_simp

lemma data_home_store: "data home_store = home_record"
  by (simp add: home_store_def saveWiFiCredentials_data initialized_fresh_store data_fresh_store
      home_record_eq)

lemma EEPROM_home_store: "EEPROM home_store = image home_record @ drop 236 (EEPROM fresh_store)"
  using data_home_store saveWiFiCredentials_EEPROM [OF initialized_fresh_store]
  by (simp add: home_store_def)

lemma parse_home: "parse (image home_record) = home_record"
  by code_simp

lemma home_invalid: "validateData home_record = False"
  by code_simp

lemma parse_default: "parse (image default_record) = default_record"
  by code_simp

lemma default_invalid: "validateData default_record = False"
  by code_simp

lemma s_record_eq:
  "default_record\<lparr>wifi := (wifi default_record)\<lparr>ssid := strncpy (bytes_of ''S'') 31 @ [0],
       password := strncpy [] 63 @ [0], valid := 1\<rparr>,
     checksum := calculateChecksum (default_record\<lparr>wifi := (wifi default_record)
       \<lparr>ssid := strncpy (bytes_of ''S'') 31 @ [0],
        password := strncpy [] 63 @ [0], valid := 1\<rparr>\<rparr>)\<rparr> = s_record"
  by code_simp

lemma data_s_store: "data s_store = s_record"
  by (simp add: s_store_def saveWiFiCredentials_data initialized_fresh_store data_fresh_store
      s_record_eq)

lemma EEPROM_s_store: "EEPROM s_store = image s_record @ drop 236 (EEPROM fresh_store)"
  using data_s_store saveWiFiCredentials_EEPROM [OF initialized_fresh_store]
  by (simp add: s_store_def)

lemma parse_s: "parse (image s_record) = s_record"
  by code_simp

lemma s_valid: "validateData s_record = True"
  by code_simp

lemma parse_corrupted: "parse ((image s_record)[235 := 7]) = corrupted_record"
  by code_simp

lemma corrupted_valid: "validateData corrupted_record = True"
  by code_simp

lemma s_byte_235: "image s_record ! 235 = 0"
  by code_simp

lemma EEPROM_get_update:
  "i < 236 \<Longrightarrow> EEPROM_get ((image d @ m)[i := b]) = parse ((image d)[i := b])"
  by (simp add: EEPROM_get_def list_update_append1)

lemma begin_keeps_valid:
  "validateData (EEPROM_get m) \<Longrightarrow>
     snd (StorageManager_begin sz p (StorageManager_ctor p' m))
       = \<lparr>initialized = True, eepromSize = sz, data = EEPROM_get m, EEPROM = m\<rparr>"
  by (simp add: StorageManager_begin_def loadFromEEPROM_def StorageManager_ctor_def)

lemma data_unopened: "data unopened_store = StorageData_ctor zero_padding"
  by (simp add: unopened_store_def StorageManager_ctor_def)

lemma ctor_cleared:
  "(StorageData_ctor zero_padding)\<lparr>wifi := clear (wifi (StorageData_ctor zero_padding)),
      network := NetworkConfig_ctor [0, 0, 0], device := DeviceConfig_ctor\<rparr>
   = StorageData_ctor zero_padding"
  by (simp add: StorageData_ctor_def clear_def WiFiCredentials_ctor_def zero_padding_def)

lemma ctor_config_cleared:
  "(StorageData_ctor zero_padding)\<lparr>network := NetworkConfig_ctor [0, 0, 0],
      device := DeviceConfig_ctor\<rparr>
   = StorageData_ctor zero_padding"
  by (simp add: StorageData_ctor_def zero_padding_def)

lemma ctor_network_cleared:
  "(StorageData_ctor zero_padding)\<lparr>network := NetworkConfig_ctor [0, 0, 0]\<rparr>
   = StorageData_ctor zero_padding"
  by (simp add: StorageData_ctor_def zero_padding_def)

lemma ctor_device_cleared:
  "(StorageData_ctor zero_padding)\<lparr>device := DeviceConfig_ctor\<rparr> = StorageData_ctor zero_padding"
  by (simp add: StorageData_ctor_def)

lemma ctor_wifi_cleared:
  "(StorageData_ctor zero_padding)\<lparr>wifi := clear (wifi (StorageData_ctor zero_padding))\<rparr>
   = StorageData_ctor zero_padding"
  by (simp add: StorageData_ctor_def clear_def WiFiCredentials_ctor_def)

lemma initialized_home_store: "initialized home_store"
  using initialized_fresh_store
  by (simp add: home_store_def saveWiFiCredentials_def Let_def saveToEEPROM_fields)

lemma image_nth_ssid: "image d ! 12 = fit 32 (ssid (wifi d)) ! 0"
  by (simp add: image_def nth_append image_WiFiCredentials_def)

lemma persisted_saveWiFiCredentials:
  "initialized sm \<Longrightarrow> persisted (snd (saveWiFiCredentials (Some s) pw sm))
     = image (data (snd (saveWiFiCredentials (Some s) pw sm)))"
  by (simp add: persisted_def saveWiFiCredentials_EEPROM)

lemma saveWiFiCredentials_accepts:
  "initialized sm \<Longrightarrow>
     fst (saveWiFiCredentials (Some s) pw sm) = True
     \<and> ssid (wifi (data (snd (saveWiFiCredentials (Some s) pw sm)))) = strncpy s 31 @ [0]
     \<and> valid (wifi (data (snd (saveWiFiCredentials (Some s) pw sm)))) = 1"
  by (cases pw) (simp_all add: saveWiFiCredentials_def Let_def saveToEEPROM_fields)

lemma home_ssid_field: "fit 32 (ssid (wifi home_record)) ! 0 = 0x48"
  by code_simp

lemma home_ssid_c_str: "c_str (ssid (wifi home_record)) = bytes_of ''Home''"
  by code_simp

lemma strlen_password64: "strlen password64 = 64"
  by code_simp

lemma c_str_password64: "take 63 (c_str password64) = replicate 63 0x61"
  by code_simp


lemma empty_ssid_record_eq:
  "default_record\<lparr>wifi := (wifi default_record)\<lparr>ssid := strncpy [] 31 @ [0],
       password := strncpy (bytes_of ''x'') 63 @ [0], valid := 1\<rparr>,
     checksum := calculateChecksum (default_record\<lparr>wifi := (wifi default_record)
       \<lparr>ssid := strncpy [] 31 @ [0],
        password := strncpy (bytes_of ''x'') 63 @ [0], valid := 1\<rparr>\<rparr>)\<rparr> = empty_ssid_record"
  by code_simp

lemma data_empty_ssid_store: "data empty_ssid_store = empty_ssid_record"
  by (simp add: empty_ssid_store_def saveWiFiCredentials_data initialized_fresh_store
      data_fresh_store empty_ssid_record_eq)

lemma EEPROM_empty_ssid_store:
  "EEPROM empty_ssid_store = image empty_ssid_record @ drop 236 (EEPROM fresh_store)"
  using data_empty_ssid_store saveWiFiCredentials_EEPROM [OF initialized_fresh_store]
  by (simp add: empty_ssid_store_def)

lemma parse_empty_ssid: "parse (image empty_ssid_record) = empty_ssid_record"
  by code_simp

lemma empty_ssid_invalid:
  "valid (wifi empty_ssid_record) = 1"
  "isValidSSID (Some (ptr_ssid (wifi empty_ssid_record))) = False"
  "validateData empty_ssid_record = False"
  by code_simp+

lemma strlen_secret: "strlen (bytes_of ''secret'') \<le> 63"
  by code_simp

section \<open>Integrity of the persisted record\<close>

text \<open>
  Claim C2 (fails on the code). \<^verbatim>\<open>calculateChecksum\<close> XORs the first
  \<^verbatim>\<open>sizeof(StorageData) - sizeof(checksum)\<close> bytes of the object, and the checksum member lies
  at offset 8, inside that range. The value \<^verbatim>\<open>saveToEEPROM\<close> stores therefore changes the
  value \<^verbatim>\<open>validateData\<close> recomputes. At the inputs below, the store opened on erased flash and
  the same store after \<^verbatim>\<open>saveWiFiCredentials("Home", "secret")\<close> returned true, the record
  read back from the medium is the record in memory and \<^verbatim>\<open>validateData\<close> rejects it.
  Besides, the write path stores an ssid unchecked: after \<^verbatim>\<open>saveWiFiCredentials("", "x")\<close>
  returned true, the record read back has \<^verbatim>\<open>valid\<close> set and an ssid that \<^verbatim>\<open>isValidSSID\<close>
  rejects.
\<close>

theorem written_record_fails_validation:
  "fst (saveWiFiCredentials (Some (bytes_of ''Home'')) (Some (bytes_of ''secret'')) fresh_store) = True
   \<and> EEPROM_get (EEPROM home_store) = data home_store
   \<and> validateData (EEPROM_get (EEPROM home_store)) = False
   \<and> EEPROM_get (EEPROM fresh_store) = data fresh_store
   \<and> validateData (EEPROM_get (EEPROM fresh_store)) = False
   \<and> fst (saveWiFiCredentials (Some []) (Some (bytes_of ''x'')) fresh_store) = True
   \<and> EEPROM_get (EEPROM empty_ssid_store) = data empty_ssid_store
   \<and> valid (wifi (EEPROM_get (EEPROM empty_ssid_store))) = 1
   \<and> isValidSSID (Some (ptr_ssid (wifi (EEPROM_get (EEPROM empty_ssid_store))))) = False
   \<and> validateData (EEPROM_get (EEPROM empty_ssid_store)) = False"
  by (simp add: EEPROM_home_store EEPROM_fresh_store EEPROM_empty_ssid_store EEPROM_get_image
      parse_home parse_default parse_empty_ssid home_invalid default_invalid empty_ssid_invalid
      data_home_store data_fresh_store data_empty_ssid_store
      saveWiFiCredentials_def initialized_fresh_store saveToEEPROM_fields)

text \<open>
  Claim C1 (fails on the code). The last four bytes of the record, \<^verbatim>\<open>reserved[60..63]\<close>,
  lie outside the range \<^verbatim>\<open>calculateChecksum\<close> covers. The record persisted by
  \<^verbatim>\<open>saveWiFiCredentials("S", "")\<close> validates; with its byte 235 changed from 0 to 7 it still
  validates, and the next \<^verbatim>\<open>begin()\<close> keeps the changed bytes in memory and on the medium.
  The default record that \<^verbatim>\<open>begin()\<close> writes over an invalid medium does not validate.
\<close>

theorem tail_corruption_undetected:
  "validateData (EEPROM_get (EEPROM s_store)) = True
   \<and> EEPROM s_store ! 235 = 0
   \<and> validateData (EEPROM_get ((EEPROM s_store)[235 := 7])) = True
   \<and> EEPROM (snd (StorageManager_begin 512 zero_padding
                 (StorageManager_ctor zero_padding ((EEPROM s_store)[235 := 7]))))
       = (EEPROM s_store)[235 := 7]
   \<and> data (snd (StorageManager_begin 512 zero_padding
                 (StorageManager_ctor zero_padding ((EEPROM s_store)[235 := 7]))))
       = corrupted_record
   \<and> validateData (data (snd (StorageManager_begin 512 zero_padding unopened_store))) = False"
proof -
  have v: "validateData (EEPROM_get ((EEPROM s_store)[235 := 7]))"
    by (simp add: EEPROM_s_store EEPROM_get_update parse_corrupted corrupted_valid)
  have "EEPROM_get ((EEPROM s_store)[235 := 7]) = corrupted_record"
    by (simp add: EEPROM_s_store EEPROM_get_update parse_corrupted)
  moreover have "EEPROM s_store ! 235 = 0"
    by (simp add: EEPROM_s_store nth_append s_byte_235)
  moreover have "validateData (EEPROM_get (EEPROM s_store)) = True"
    by (simp add: EEPROM_s_store EEPROM_get_image parse_s s_valid)
  moreover have "validateData (data (snd (StorageManager_begin 512 zero_padding unopened_store))) = False"
    using data_fresh_store default_invalid by (simp add: fresh_store_def)
  ultimately show ?thesis
    using v by (simp add: begin_keeps_valid [OF v])
qed


section \<open>Operations before \<^verbatim>\<open>begin()\<close>\<close>

text \<open>
  Claim C4 (fails on the code). On a store that was constructed and never opened, the
  \<^verbatim>\<open>save\<dots>\<close> operations return false and change nothing, but the \<^verbatim>\<open>clear\<dots>\<close>
  operations and \<^verbatim>\<open>format\<close> have no guard: they run \<^verbatim>\<open>saveToEEPROM\<close>, which overwrites
  the checksum member of the record in memory.
\<close>

theorem clear_before_begin_mutates:
  "initialized unopened_store = False
   \<and> checksum (data unopened_store) = 0
   \<and> checksum (data (clearWiFiCredentials unopened_store)) = 0x52
   \<and> checksum (data (clearNetworkConfig [0, 0, 0] unopened_store)) = 0x52
   \<and> checksum (data (clearDeviceConfig unopened_store)) = 0x52
   \<and> checksum (data (clearAll [0, 0, 0] unopened_store)) = 0x52
   \<and> checksum (data (format zero_padding unopened_store)) = 0x52
   \<and> saveAll (wifi (data unopened_store)) (network (data unopened_store))
         (device (data unopened_store)) unopened_store = (False, unopened_store)"
proof -
  have "initialized unopened_store = False" "checksum (data unopened_store) = 0"
    by (simp_all add: unopened_store_def StorageManager_ctor_def StorageData_ctor_def)
  then show ?thesis
    by (simp add: clearWiFiCredentials_def clearNetworkConfig_def clearDeviceConfig_def
        clearAll_def format_def saveToEEPROM_data data_unopened
        ctor_cleared ctor_wifi_cleared ctor_config_cleared ctor_network_cleared
        ctor_device_cleared initializeDefaults_data checksum_ctor saveAll_def)
qed


section \<open>What \<^verbatim>\<open>saveWiFiCredentials\<close> accepts\<close>

lemma ssid33_facts:
  "strlen ssid33 = 33" "list_all printable (c_str ssid33)"
  "take 31 (c_str ssid33) = replicate 31 0x41"
  "fit 32 (strncpy ssid33 31 @ [0]) ! 0 = 0x41"
  by code_simp+

lemma length_strncpy [simp]: "length (strncpy src n) = n"
  by (simp add: strncpy_def strlen_def)

lemma fit_exact: "length xs = n \<Longrightarrow> fit n xs = xs"
  by (simp add: fit_def)

lemma c_str_zeros_then: "c_str (replicate k 0 @ 0 # rest) = []"
  by (cases k) (simp_all add: c_str_def)

lemma c_str_ptr_ssid:
  assumes "ssid w = strncpy src 31 @ [0]"
  shows "c_str (ptr_ssid w) = take 31 (c_str src)"
proof -
  have "fit 32 (strncpy src 31 @ [0]) = strncpy src 31 @ [0]"
    by (rule fit_exact) simp
  then have f: "fit 32 (ssid w) = take 31 (c_str src) @ (replicate (31 - strlen src) 0 @ [0])"
    unfolding assms by (simp add: strncpy_def)
  have "\<forall>x \<in> set (take 31 (c_str src)). x \<noteq> 0"
    by (auto dest: in_set_takeD c_str_nonzero)
  then have "c_str (take 31 (c_str src) @ (replicate (31 - strlen src) 0
                @ 0 # (fit 64 (password w) @ [valid w])))
             = take 31 (c_str src) @ c_str (replicate (31 - strlen src) 0
                @ 0 # (fit 64 (password w) @ [valid w]))"
    by (rule c_str_no_zero)
  then show ?thesis
    by (simp add: ptr_ssid_def image_WiFiCredentials_def f c_str_zeros_then)
qed

lemma stored_ssid_valid:
  assumes "ssid w = strncpy src 31 @ [0]" and "strlen src \<noteq> 0"
    and "list_all printable (c_str src)"
  shows "isValidSSID (Some (ptr_ssid w))"
proof -
  have "list_all printable (take 31 (c_str src))"
    using assms(3) by (auto simp: list_all_iff dest: in_set_takeD)
  then have "list_all (\<lambda>c. \<not> (c < 32 \<or> c > 126)) (take 31 (c_str src))"
    by (auto simp: list_all_iff printable_def not_less)
  then show ?thesis
    using assms(2)
    by (simp add: isValidSSID_def strlen_def c_str_ptr_ssid [OF assms(1)] Let_def)
qed

lemma saveWiFiCredentials_ssid:
  "initialized sm \<Longrightarrow>
     ssid (wifi (data (snd (saveWiFiCredentials (Some s) pw sm)))) = strncpy s 31 @ [0]"
  by (simp add: saveWiFiCredentials_accepts)

text \<open>
  Claim C3 as stated fails: with credentials "Home"/"secret" stored, the call
  \<^verbatim>\<open>saveWiFiCredentials\<close> with a 33-byte ssid returns true and overwrites the stored ssid with
  the first 31 bytes of the argument, in memory and on the medium (byte 12 is \<^verbatim>\<open>ssid[0]\<close>).
\<close>

theorem long_ssid_accepted:
  "c_str (ssid (wifi (data home_store))) = bytes_of ''Home''
   \<and> strlen ssid33 = 33
   \<and> fst (saveWiFiCredentials (Some ssid33) (Some (bytes_of ''x'')) home_store) = True
   \<and> c_str (ssid (wifi (data (snd (saveWiFiCredentials (Some ssid33) (Some (bytes_of ''x''))
               home_store))))) = replicate 31 0x41
   \<and> persisted home_store ! 12 = 0x48
   \<and> persisted (snd (saveWiFiCredentials (Some ssid33) (Some (bytes_of ''x'')) home_store)) ! 12
       = 0x41"
proof -
  have "persisted home_store ! 12 = 0x48"
    by (simp add: persisted_def EEPROM_home_store image_nth_ssid home_ssid_field nth_append)
  moreover have "persisted (snd (saveWiFiCredentials (Some ssid33) (Some (bytes_of ''x''))
      home_store)) ! 12 = 0x41"
    by (simp add: persisted_saveWiFiCredentials initialized_home_store image_nth_ssid
        saveWiFiCredentials_accepts ssid33_facts)
  moreover have "c_str (ssid (wifi (data (snd (saveWiFiCredentials (Some ssid33)
      (Some (bytes_of ''x'')) home_store))))) = replicate 31 0x41"
    by (simp add: saveWiFiCredentials_accepts initialized_home_store c_str_strncpy ssid33_facts)
  ultimately show ?thesis
    by (simp add: data_home_store home_ssid_c_str saveWiFiCredentials_accepts
        initialized_home_store ssid33_facts)
qed

text \<open>
  Claim C3, amended. \<^verbatim>\<open>saveWiFiCredentials\<close> returns false when the store is not initialized or
  the ssid pointer is null, and whenever it returns false the store (record in memory and
  medium) is left as it was. An ssid longer than 32 bytes is not rejected: for every ssid
  that is not empty and consists of printable characters, however long, the call returns
  true, the stored ssid is the first 31 bytes of the argument, \<^verbatim>\<open>valid\<close> is set, and the
  stored ssid passes \<^verbatim>\<open>isValidSSID\<close>.
\<close>

theorem saveWiFiCredentials_rejection:
  "(\<not> initialized sm \<or> a = None \<longrightarrow> saveWiFiCredentials a pw sm = (False, sm))
   \<and> (fst (saveWiFiCredentials a pw sm) = False \<longrightarrow> snd (saveWiFiCredentials a pw sm) = sm)
   \<and> (initialized sm \<and> strlen s \<noteq> 0 \<and> list_all printable (c_str s) \<longrightarrow>
        fst (saveWiFiCredentials (Some s) pw sm) = True
        \<and> c_str (ssid (wifi (data (snd (saveWiFiCredentials (Some s) pw sm))))) = take 31 (c_str s)
        \<and> valid (wifi (data (snd (saveWiFiCredentials (Some s) pw sm)))) = 1
        \<and> isValidSSID (Some (ptr_ssid (wifi (data (snd (saveWiFiCredentials (Some s) pw sm)))))))"
proof (intro conjI impI)
  show "saveWiFiCredentials a pw sm = (False, sm)" if "\<not> initialized sm \<or> a = None"
    using that by (cases a) (auto simp: saveWiFiCredentials_def)
  show "snd (saveWiFiCredentials a pw sm) = sm" if "fst (saveWiFiCredentials a pw sm) = False"
    using that
    by (cases a; cases "initialized sm")
      (simp_all add: saveWiFiCredentials_accepts, simp_all add: saveWiFiCredentials_def)
next
  assume h: "initialized sm \<and> strlen s \<noteq> 0 \<and> list_all printable (c_str s)"
  then show "isValidSSID (Some (ptr_ssid (wifi (data (snd (saveWiFiCredentials (Some s) pw sm))))))"
    by (intro stored_ssid_valid [of _ s] saveWiFiCredentials_ssid) simp_all
qed (simp_all add: saveWiFiCredentials_accepts c_str_strncpy)

theorem saveWiFiCredentials_rejection_witness:
  "saveWiFiCredentials None (Some (bytes_of ''x'')) home_store = (False, home_store)
   \<and> initialized home_store \<and> strlen ssid33 \<noteq> 0 \<and> list_all printable (c_str ssid33)
   \<and> fst (saveWiFiCredentials (Some ssid33) (Some (bytes_of ''x'')) home_store) = True
   \<and> valid (wifi (data (snd (saveWiFiCredentials (Some ssid33) (Some (bytes_of ''x''))
               home_store)))) = 1
   \<and> isValidSSID (Some (ptr_ssid (wifi (data (snd (saveWiFiCredentials (Some ssid33)
               (Some (bytes_of ''x'')) home_store))))))"
  using initialized_home_store ssid33_facts(1,2)
    saveWiFiCredentials_rejection [of home_store None "Some (bytes_of ''x'')" ssid33]
    saveWiFiCredentials_rejection [of home_store "Some ssid33" "Some (bytes_of ''x'')" ssid33]
  by simp

section \<open>Password length\<close>

text \<open>
  Claim C9 as stated fails: of a 64-byte password only the first 63 bytes are stored.
\<close>

theorem password_of_64_bytes_cut:
  "strlen password64 = 64
   \<and> c_str (password (wifi (data (snd (saveWiFiCredentials (Some (bytes_of ''Home''))
               (Some password64) fresh_store))))) = replicate 63 0x61
   \<and> c_str (password (wifi (data (snd (saveWiFiCredentials (Some (bytes_of ''Home''))
               (Some password64) fresh_store))))) \<noteq> take 64 password64"
  by (simp add: saveWiFiCredentials_data initialized_fresh_store c_str_strncpy
      strlen_password64 c_str_password64) (simp add: password64_def)

text \<open>
  Claim C9, amended. With the store initialized and a non-null ssid, a non-null password is
  cut at 63 bytes: the 64-byte field holds the first 63 bytes of the argument, NUL padded,
  and the last byte is NUL; a password of 63 bytes or fewer is stored unmodified.
\<close>

theorem saveWiFiCredentials_password_truncation:
  "initialized sm \<Longrightarrow>
     password (wifi (data (snd (saveWiFiCredentials (Some s) (Some pw) sm)))) = strncpy pw 63 @ [0]
   \<and> c_str (password (wifi (data (snd (saveWiFiCredentials (Some s) (Some pw) sm)))))
       = take 63 (c_str pw)
   \<and> (strlen pw \<le> 63 \<longrightarrow>
        c_str (password (wifi (data (snd (saveWiFiCredentials (Some s) (Some pw) sm))))) = c_str pw)"
  by (simp add: saveWiFiCredentials_def Let_def saveToEEPROM_fields c_str_strncpy strlen_def)

theorem saveWiFiCredentials_password_truncation_witness:
  "initialized fresh_store \<and> strlen (bytes_of ''secret'') \<le> 63
   \<and> c_str (password (wifi (data home_store))) = c_str (bytes_of ''secret'')"
proof -
  have "c_str (password (wifi (data (snd (saveWiFiCredentials (Some (bytes_of ''Home''))
          (Some (bytes_of ''secret'')) fresh_store))))) = c_str (bytes_of ''secret'')"
    using strlen_secret
      saveWiFiCredentials_password_truncation [OF initialized_fresh_store,
        of "bytes_of ''Home''" "bytes_of ''secret''"]
    by blast
  then show ?thesis
    using initialized_fresh_store strlen_secret by (simp add: home_store_def)
qed


section \<open>Status notifications\<close>


lemma emit_fields [simp]:
  "config (emit e s) = config s" "status (emit e s) = status s" "portal (emit e s) = portal s"
  "storage (emit e s) = storage s" "isInitialized (emit e s) = isInitialized s"
  "configMode (emit e s) = configMode s" "lastReconnectAttempt (emit e s) = lastReconnectAttempt s"
  "reconnectAttempts (emit e s) = reconnectAttempts s" "pressStart (emit e s) = pressStart s"
  "pressed (emit e s) = pressed s" "onConfigStart_set (emit e s) = onConfigStart_set s"
  "onConfigEnd_set (emit e s) = onConfigEnd_set s" "onConnect_set (emit e s) = onConnect_set s"
  "onStatusChange_set (emit e s) = onStatusChange_set s" "restarted (emit e s) = restarted s"
  "events (emit e s) = events s @ [e]"
  by (simp_all add: emit_def)

lemma callback_fields [simp]:
  "config (callback b e s) = config s" "status (callback b e s) = status s"
  "portal (callback b e s) = portal s"
  "storage (callback b e s) = storage s" "isInitialized (callback b e s) = isInitialized s"
  "configMode (callback b e s) = configMode s"
  "lastReconnectAttempt (callback b e s) = lastReconnectAttempt s"
  "reconnectAttempts (callback b e s) = reconnectAttempts s"
  "pressStart (callback b e s) = pressStart s"
  "pressed (callback b e s) = pressed s" "onConfigStart_set (callback b e s) = onConfigStart_set s"
  "onConfigEnd_set (callback b e s) = onConfigEnd_set s"
  "onConnect_set (callback b e s) = onConnect_set s"
  "onStatusChange_set (callback b e s) = onStatusChange_set s"
  "restarted (callback b e s) = restarted s"
  "events (callback b e s) = events s @ (if b then [e] else [])"
  by (simp_all add: callback_def)

lemma setStatus_fields [simp]:
  "config (setStatus st s) = config s" "status (setStatus st s) = st"
  "portal (setStatus st s) = portal s"
  "storage (setStatus st s) = storage s" "isInitialized (setStatus st s) = isInitialized s"
  "configMode (setStatus st s) = configMode s"
  "lastReconnectAttempt (setStatus st s) = lastReconnectAttempt s"
  "reconnectAttempts (setStatus st s) = reconnectAttempts s"
  "pressStart (setStatus st s) = pressStart s"
  "pressed (setStatus st s) = pressed s" "onConfigStart_set (setStatus st s) = onConfigStart_set s"
  "onConfigEnd_set (setStatus st s) = onConfigEnd_set s"
  "onConnect_set (setStatus st s) = onConnect_set s"
  "onStatusChange_set (setStatus st s) = onStatusChange_set s"
  "restarted (setStatus st s) = restarted s"
  by (simp_all add: setStatus_def)

lemma setStatus_events:
  "events (setStatus st s) =
     events s @ (if status s \<noteq> st
                 then Transition st # (if onStatusChange_set s then [Notify st] else [])
                 else [])"
  by (simp add: setStatus_def)

lemma notified_append: "notified (s\<lparr>events := xs @ ys\<rparr>) = notified (s\<lparr>events := xs\<rparr>) @ notified (s\<lparr>events := ys\<rparr>)"
  by (simp add: notified_def)

lemma notified_setStatus:
  "onStatusChange_set s \<Longrightarrow>
     notified (setStatus st s) = notified s @ (if status s \<noteq> st then [st] else [])"
  by (simp add: notified_def setStatus_events)

text \<open>
  Claim C8. With an observer registered, over any sequence of \<^verbatim>\<open>setStatus\<close> calls the observer is
  called once for each call whose status differs from the status current at that call, in
  order, and not at all for a call with the current status.
\<close>

theorem setStatus_notifies_changes:
  "onStatusChange_set s \<Longrightarrow>
     notified (fold setStatus xs s) = notified s @ changes (status s) xs"
proof (induction xs arbitrary: s)
  case Nil
  then show ?case by simp
next
  case (Cons x xs)
  have "notified (fold setStatus xs (setStatus x s))
        = notified (setStatus x s) @ changes (status (setStatus x s)) xs"
    using Cons.prems by (intro Cons.IH) simp
  then show ?case
    using Cons.prems by (simp add: notified_setStatus)
qed

lemma demo_registered: "onStatusChange_set demo_manager"
  by (simp add: demo_manager_def onStatusChange_def)

lemma demo_status: "status demo_manager = DISCONNECTED" "events demo_manager = []"
  by (simp_all add: demo_manager_def onStatusChange_def PicoWiFiManager_begin_def)

theorem setStatus_notifies_changes_witness:
  "onStatusChange_set demo_manager
   \<and> notified (fold setStatus [DISCONNECTED, CONNECTING, CONNECTING, CONNECTED, CONNECTED,
                               DISCONNECTED] demo_manager)
       = [CONNECTING, CONNECTED, DISCONNECTED]"
  using demo_registered
    setStatus_notifies_changes [OF demo_registered,
      of "[DISCONNECTED, CONNECTING, CONNECTING, CONNECTED, CONNECTED, DISCONNECTED]"]
  by (simp add: demo_status notified_def)

section \<open>The reconnection policy\<close>

lemma counters_update [simp]:
  "attempts_made (s\<lparr>status := a\<rparr>) = attempts_made s"
  "attempts_made (s\<lparr>portal := b\<rparr>) = attempts_made s"
  "attempts_made (s\<lparr>storage := c\<rparr>) = attempts_made s"
  "attempts_made (s\<lparr>configMode := d\<rparr>) = attempts_made s"
  "attempts_made (s\<lparr>lastReconnectAttempt := f\<rparr>) = attempts_made s"
  "attempts_made (s\<lparr>reconnectAttempts := g\<rparr>) = attempts_made s"
  "attempts_made (s\<lparr>pressStart := h\<rparr>) = attempts_made s"
  "attempts_made (s\<lparr>pressed := i\<rparr>) = attempts_made s"
  "attempts_made (s\<lparr>restarted := j\<rparr>) = attempts_made s"
  "entries (s\<lparr>status := a\<rparr>) = entries s"
  "entries (s\<lparr>portal := b\<rparr>) = entries s"
  "entries (s\<lparr>storage := c\<rparr>) = entries s"
  "entries (s\<lparr>configMode := d\<rparr>) = entries s"
  "entries (s\<lparr>lastReconnectAttempt := f\<rparr>) = entries s"
  "entries (s\<lparr>reconnectAttempts := g\<rparr>) = entries s"
  "entries (s\<lparr>pressStart := h\<rparr>) = entries s"
  "entries (s\<lparr>pressed := i\<rparr>) = entries s"
  "entries (s\<lparr>restarted := j\<rparr>) = entries s"
  by (simp_all add: attempts_made_def entries_def)

lemma counters_emit [simp]:
  "attempts_made (emit e s) = attempts_made s + (if e = ReconnectionAttempt then 1 else 0)"
  "entries (emit e s) = entries s + (if e = Transition CONFIG_MODE then 1 else 0)"
  by (simp_all add: attempts_made_def entries_def)

lemma counters_callback [simp]:
  "attempts_made (callback b e s)
     = attempts_made s + (if b \<and> e = ReconnectionAttempt then 1 else 0)"
  "entries (callback b e s) = entries s + (if b \<and> e = Transition CONFIG_MODE then 1 else 0)"
  by (simp_all add: callback_def)

lemma counters_setStatus [simp]:
  "attempts_made (setStatus st s) = attempts_made s"
  "entries (setStatus st s)
     = entries s + (if st = CONFIG_MODE \<and> status s \<noteq> CONFIG_MODE then 1 else 0)"
  by (auto simp: setStatus_def)

lemma connectWiFi_frame [simp]:
  "config (snd (connectWiFi a b j s)) = config s"
  "portal (snd (connectWiFi a b j s)) = portal s"
  "storage (snd (connectWiFi a b j s)) = storage s"
  "isInitialized (snd (connectWiFi a b j s)) = isInitialized s"
  "configMode (snd (connectWiFi a b j s)) = configMode s"
  "lastReconnectAttempt (snd (connectWiFi a b j s)) = lastReconnectAttempt s"
  "pressStart (snd (connectWiFi a b j s)) = pressStart s"
  "pressed (snd (connectWiFi a b j s)) = pressed s"
  "restarted (snd (connectWiFi a b j s)) = restarted s"
  "onConfigStart_set (snd (connectWiFi a b j s)) = onConfigStart_set s"
  "onConfigEnd_set (snd (connectWiFi a b j s)) = onConfigEnd_set s"
  "onConnect_set (snd (connectWiFi a b j s)) = onConnect_set s"
  "onStatusChange_set (snd (connectWiFi a b j s)) = onStatusChange_set s"
  "attempts_made (snd (connectWiFi a b j s)) = attempts_made s"
  "entries (snd (connectWiFi a b j s)) = entries s"
  by (simp_all add: connectWiFi_def Let_def split: option.splits)

lemma connectWiFi_success:
  "strlen n \<noteq> 0 \<Longrightarrow>
     fst (connectWiFi (Some n) b True s) = True
     \<and> status (snd (connectWiFi (Some n) b True s)) = CONNECTED
     \<and> reconnectAttempts (snd (connectWiFi (Some n) b True s)) = 0"
  by (simp add: connectWiFi_def Let_def split: option.splits)

lemma connectWiFi_failure:
  "fst (connectWiFi a b False s) = False"
  "reconnectAttempts (snd (connectWiFi a b False s)) = reconnectAttempts s"
  "status s \<noteq> CONFIG_MODE \<Longrightarrow> status (snd (connectWiFi a b False s)) \<noteq> CONFIG_MODE"
  by (simp_all add: connectWiFi_def Let_def split: option.splits)

lemma portal_start_frame [simp]:
  "config (snd (portal_start n pw ok t s)) = config s"
  "status (snd (portal_start n pw ok t s)) = status s"
  "storage (snd (portal_start n pw ok t s)) = storage s"
  "isInitialized (snd (portal_start n pw ok t s)) = isInitialized s"
  "configMode (snd (portal_start n pw ok t s)) = configMode s"
  "lastReconnectAttempt (snd (portal_start n pw ok t s)) = lastReconnectAttempt s"
  "reconnectAttempts (snd (portal_start n pw ok t s)) = reconnectAttempts s"
  "pressStart (snd (portal_start n pw ok t s)) = pressStart s"
  "pressed (snd (portal_start n pw ok t s)) = pressed s"
  "restarted (snd (portal_start n pw ok t s)) = restarted s"
  "onStatusChange_set (snd (portal_start n pw ok t s)) = onStatusChange_set s"
  "attempts_made (snd (portal_start n pw ok t s)) = attempts_made s"
  "entries (snd (portal_start n pw ok t s)) = entries s"
  "fst (portal_start n pw ok t s) = ok"
  "active (portal (snd (portal_start n pw ok t s))) = (ok \<or> active (portal s))"
  by (simp_all add: portal_start_def Let_def split: option.splits)

lemma startConfigPortal_frame [simp]:
  "config (snd (startConfigPortal ok t s)) = config s"
  "storage (snd (startConfigPortal ok t s)) = storage s"
  "isInitialized (snd (startConfigPortal ok t s)) = isInitialized s"
  "lastReconnectAttempt (snd (startConfigPortal ok t s)) = lastReconnectAttempt s"
  "reconnectAttempts (snd (startConfigPortal ok t s)) = reconnectAttempts s"
  "pressStart (snd (startConfigPortal ok t s)) = pressStart s"
  "pressed (snd (startConfigPortal ok t s)) = pressed s"
  "restarted (snd (startConfigPortal ok t s)) = restarted s"
  "attempts_made (snd (startConfigPortal ok t s)) = attempts_made s"
  "fst (startConfigPortal ok t s) = ok"
  "configMode (snd (startConfigPortal ok t s)) = ok"
  "status (snd (startConfigPortal ok t s)) = (if ok then CONFIG_MODE else ERROR)"
  "active (portal (snd (startConfigPortal ok t s))) = (ok \<or> active (portal s))"
  "entries (snd (startConfigPortal ok t s))
     = entries s + (if status s \<noteq> CONFIG_MODE then 1 else 0)"
  by (simp_all add: startConfigPortal_def Let_def split_def)

lemma portal_stop_frame [simp]:
  "config (portal_stop s) = config s"
  "status (portal_stop s) = status s"
  "storage (portal_stop s) = storage s"
  "isInitialized (portal_stop s) = isInitialized s"
  "configMode (portal_stop s) = configMode s"
  "lastReconnectAttempt (portal_stop s) = lastReconnectAttempt s"
  "reconnectAttempts (portal_stop s) = reconnectAttempts s"
  "pressStart (portal_stop s) = pressStart s"
  "pressed (portal_stop s) = pressed s"
  "restarted (portal_stop s) = restarted s"
  "attempts_made (portal_stop s) = attempts_made s"
  "entries (portal_stop s) = entries s"
  "active (portal (portal_stop s)) = False"
  by (simp_all add: portal_stop_def)

lemma stopConfigPortal_frame [simp]:
  "config (stopConfigPortal s) = config s"
  "status (stopConfigPortal s) = status s"
  "storage (stopConfigPortal s) = storage s"
  "isInitialized (stopConfigPortal s) = isInitialized s"
  "configMode (stopConfigPortal s) = False"
  "lastReconnectAttempt (stopConfigPortal s) = lastReconnectAttempt s"
  "reconnectAttempts (stopConfigPortal s) = reconnectAttempts s"
  "pressStart (stopConfigPortal s) = pressStart s"
  "pressed (stopConfigPortal s) = pressed s"
  "restarted (stopConfigPortal s) = restarted s"
  "attempts_made (stopConfigPortal s) = attempts_made s"
  "entries (stopConfigPortal s) = entries s"
  by (simp_all add: stopConfigPortal_def Let_def)

lemma reset_frame [simp]:
  "config (reset p s) = config s"
  "status (reset p s) = status s"
  "storage (reset p s) = clearAll p (storage s)"
  "isInitialized (reset p s) = isInitialized s"
  "configMode (reset p s) = False"
  "pressed (reset p s) = pressed s"
  "restarted (reset p s) = True"
  "attempts_made (reset p s) = attempts_made s"
  "entries (reset p s) = entries s"
  by (simp_all add: reset_def Let_def)

lemma checkResetButton_idle:
  "\<not> pressed s \<Longrightarrow> \<not> resetPin_low e \<Longrightarrow> checkResetButton e s = s"
  by (simp add: checkResetButton_def)

lemma loop_reconnecting:
  "reconnecting s \<Longrightarrow> \<not> resetPin_low e \<Longrightarrow> loop e s = handleReconnection e s"
  by (simp add: loop_def reconnecting_def checkResetButton_idle)

lemma handleReconnection_attempt:
  assumes "\<not> configMode s" "\<not> wifi_connected e" "\<not> reconnect_join_ok e"
    "10000 \<le> millis_reconnect e - lastReconnectAttempt s"
    "reconnectAttempts s < cfg_maxReconnectAttempts (config s)"
  shows "reconnectAttempts (handleReconnection e s) = reconnectAttempts s + 1"
    and "lastReconnectAttempt (handleReconnection e s) = millis_reconnect e"
    and "attempts_made (handleReconnection e s) = attempts_made s + 1"
    and "entries (handleReconnection e s) = entries s"
    and "config (handleReconnection e s) = config s"
    and "storage (handleReconnection e s) = storage s"
    and "portal (handleReconnection e s) = portal s"
    and "isInitialized (handleReconnection e s) = isInitialized s"
    and "restarted (handleReconnection e s) = restarted s"
    and "configMode (handleReconnection e s) = False"
    and "pressed (handleReconnection e s) = pressed s"
    and "status s \<noteq> CONFIG_MODE \<Longrightarrow> status (handleReconnection e s) \<noteq> CONFIG_MODE"
  using assms
  by (simp_all add: handleReconnection_def Let_def connectWiFi_failure not_less [symmetric]
      split: prod.splits option.splits bool.splits)

lemma loop_attempt:
  assumes "reconnecting s" "\<not> wifi_connected e" "\<not> reconnect_join_ok e" "\<not> resetPin_low e"
    "10000 \<le> millis_reconnect e - lastReconnectAttempt s"
    "reconnectAttempts s < cfg_maxReconnectAttempts (config s)"
  shows "reconnecting (loop e s)"
    and "reconnectAttempts (loop e s) = reconnectAttempts s + 1"
    and "lastReconnectAttempt (loop e s) = millis_reconnect e"
    and "attempts_made (loop e s) = attempts_made s + 1"
    and "entries (loop e s) = entries s"
    and "config (loop e s) = config s"
    and "storage (loop e s) = storage s"
proof -
  have nc: "\<not> configMode s" and st: "status s \<noteq> CONFIG_MODE"
    using assms(1) by (simp_all add: reconnecting_def)
  note h = handleReconnection_attempt [OF nc assms(2,3,5,6)]
  have l: "loop e s = handleReconnection e s"
    using assms(1,4) by (rule loop_reconnecting)
  show "reconnecting (loop e s)"
    using assms(1) h(12) [OF st] unfolding l reconnecting_def by (simp add: h)
  show "reconnectAttempts (loop e s) = reconnectAttempts s + 1"
    "lastReconnectAttempt (loop e s) = millis_reconnect e"
    "attempts_made (loop e s) = attempts_made s + 1"
    "entries (loop e s) = entries s"
    "config (loop e s) = config s"
    "storage (loop e s) = storage s"
    unfolding l by (simp_all add: h)
qed

lemma loop_give_up:
  assumes "reconnecting s" "\<not> wifi_connected e" "\<not> resetPin_low e"
    "10000 \<le> millis_reconnect e - lastReconnectAttempt s"
    "cfg_maxReconnectAttempts (config s) \<le> reconnectAttempts s"
    "reconnect_softAP_ok e"
  shows "configMode (loop e s)" and "status (loop e s) = CONFIG_MODE"
    and "active (portal (loop e s))"
    and "entries (loop e s) = entries s + 1"
    and "attempts_made (loop e s) = attempts_made s"
    and "isInitialized (loop e s)" and "\<not> restarted (loop e s)"
    and "reconnectAttempts (loop e s) = reconnectAttempts s"
    and "\<not> pressed (loop e s)"
proof -
  have l: "loop e s = snd (startConfigPortal True (reconnect_portal_millis e) s)"
    using assms by (simp add: loop_reconnecting handleReconnection_def reconnecting_def
        not_less [symmetric])
  show "configMode (loop e s)" "status (loop e s) = CONFIG_MODE" "active (portal (loop e s))"
    "entries (loop e s) = entries s + 1" "attempts_made (loop e s) = attempts_made s"
    "isInitialized (loop e s)" "\<not> restarted (loop e s)"
    "reconnectAttempts (loop e s) = reconnectAttempts s" "\<not> pressed (loop e s)"
    using assms(1) unfolding l by (simp_all add: reconnecting_def)
qed

lemma run_Cons: "run (e # es) s = run es (loop e s)"
  by (simp add: run_def)

lemma run_Nil: "run [] s = s"
  by (simp add: run_def)

lemma failing_ticks_butlast: "failing_ticks p (es @ [g]) \<Longrightarrow> failing_ticks p es"
  by (induction es arbitrary: p) simp_all

lemma word_attempt_less:
  fixes a m :: byte
  assumes "unat a + Suc n \<le> unat m"
  shows "a < m" and "unat (a + 1) = Suc (unat a)"
proof -
  show "a < m" using assms by (simp add: word_less_nat_alt)
  have "unat m < 2 ^ LENGTH(8)" by (rule unsigned_less)
  then have "unat a + unat (1 :: byte) < 2 ^ LENGTH(8)" using assms by simp
  then have "unat (a + 1) = unat a + unat (1 :: byte)" by (simp only: unat_add_lem)
  then show "unat (a + 1) = Suc (unat a)" by simp
qed

lemma failing_run:
  "reconnecting s \<Longrightarrow> failing_ticks (lastReconnectAttempt s) es \<Longrightarrow>
   unat (reconnectAttempts s) + length es \<le> unat (cfg_maxReconnectAttempts (config s)) \<Longrightarrow>
     reconnecting (run es s)
     \<and> unat (reconnectAttempts (run es s)) = unat (reconnectAttempts s) + length es
     \<and> attempts_made (run es s) = attempts_made s + length es
     \<and> entries (run es s) = entries s
     \<and> config (run es s) = config s
     \<and> storage (run es s) = storage s"
proof (induction es arbitrary: s)
  case Nil
  then show ?case by (simp add: run_Nil)
next
  case (Cons e es)
  have le: "unat (reconnectAttempts s) + Suc (length es)
              \<le> unat (cfg_maxReconnectAttempts (config s))"
    using Cons.prems(3) by simp
  have t: "\<not> wifi_connected e" "\<not> reconnect_join_ok e" "\<not> resetPin_low e"
    "10000 \<le> millis_reconnect e - lastReconnectAttempt s"
    "failing_ticks (millis_reconnect e) es"
    using Cons.prems(2) by simp_all
  note w = word_attempt_less [OF le]
  note a = loop_attempt [OF Cons.prems(1) t(1,2,3,4) w(1)]
  have "reconnecting (run es (loop e s))
     \<and> unat (reconnectAttempts (run es (loop e s))) = unat (reconnectAttempts (loop e s)) + length es
     \<and> attempts_made (run es (loop e s)) = attempts_made (loop e s) + length es
     \<and> entries (run es (loop e s)) = entries (loop e s)
     \<and> config (run es (loop e s)) = config (loop e s)
     \<and> storage (run es (loop e s)) = storage (loop e s)"
    using a(1) t(5) le by (intro Cons.IH) (simp_all add: a w)
  then show ?case
    by (simp add: run_Cons a w)
qed

lemma failing_run_gives_up:
  "reconnecting s \<Longrightarrow> failing_ticks (lastReconnectAttempt s) (es @ [g]) \<Longrightarrow>
   unat (reconnectAttempts s) + length es = unat (cfg_maxReconnectAttempts (config s)) \<Longrightarrow>
   reconnect_softAP_ok g \<Longrightarrow>
     configMode (loop g (run es s))
     \<and> status (loop g (run es s)) = CONFIG_MODE
     \<and> active (portal (loop g (run es s)))
     \<and> entries (loop g (run es s)) = entries s + 1
     \<and> attempts_made (loop g (run es s)) = attempts_made s + length es
     \<and> isInitialized (loop g (run es s)) \<and> \<not> restarted (loop g (run es s))
     \<and> \<not> pressed (loop g (run es s))"
proof (induction es arbitrary: s)
  case Nil
  have t: "\<not> wifi_connected g" "\<not> resetPin_low g"
    "10000 \<le> millis_reconnect g - lastReconnectAttempt s"
    using Nil.prems(2) by simp_all
  have "cfg_maxReconnectAttempts (config s) \<le> reconnectAttempts s"
    using Nil.prems(3) by (simp add: word_le_nat_alt)
  note g = loop_give_up [OF Nil.prems(1) t this Nil.prems(4)]
  show ?case
    using Nil.prems(1) by (simp add: run_Nil g)
next
  case (Cons e es)
  have le: "unat (reconnectAttempts s) + Suc (length es)
              \<le> unat (cfg_maxReconnectAttempts (config s))"
    using Cons.prems(3) by simp
  have t: "\<not> wifi_connected e" "\<not> reconnect_join_ok e" "\<not> resetPin_low e"
    "10000 \<le> millis_reconnect e - lastReconnectAttempt s"
    "failing_ticks (millis_reconnect e) (es @ [g])"
    using Cons.prems(2) by simp_all
  note w = word_attempt_less [OF le]
  note a = loop_attempt [OF Cons.prems(1) t(1,2,3,4) w(1)]
  have "configMode (loop g (run es (loop e s)))
     \<and> status (loop g (run es (loop e s))) = CONFIG_MODE
     \<and> active (portal (loop g (run es (loop e s))))
     \<and> entries (loop g (run es (loop e s))) = entries (loop e s) + 1
     \<and> attempts_made (loop g (run es (loop e s))) = attempts_made (loop e s) + length es
     \<and> isInitialized (loop g (run es (loop e s))) \<and> \<not> restarted (loop g (run es (loop e s)))
     \<and> \<not> pressed (loop g (run es (loop e s)))"
    using a(1) t(5) Cons.prems(3,4) by (intro Cons.IH) (simp_all add: a w)
  then show ?case
    by (simp add: run_Cons a)
qed

lemma loop_in_config:
  assumes "configMode s" "request e = NoRequest" "configMode (loop e s)"
  shows "attempts_made (loop e s) = attempts_made s"
    and "entries (loop e s) = entries s"
    and "status (loop e s) = status s"
  using assms
  by (auto simp: loop_def Let_def portal_handle_def checkResetButton_def split: if_splits)

lemma config_run:
  "configMode s \<Longrightarrow> stays_in_config es s \<Longrightarrow>
     configMode (run es s) \<and> attempts_made (run es s) = attempts_made s
     \<and> entries (run es s) = entries s \<and> status (run es s) = status s"
proof (induction es arbitrary: s)
  case Nil
  then show ?case by (simp add: run_Nil)
next
  case (Cons e es)
  have c: "request e = NoRequest" "configMode (loop e s)" "stays_in_config es (loop e s)"
    using Cons.prems(2) by simp_all
  note l = loop_in_config [OF Cons.prems(1) c(1,2)]
  show ?case
    using Cons.IH [OF c(2,3)] by (simp add: run_Cons l)
qed

lemma loop_config_idle:
  assumes "isInitialized s" "\<not> restarted s" "configMode s" "\<not> pressed s"
    "\<not> resetPin_low e" "request e = NoRequest"
  shows "configMode (loop e s)" and "isInitialized (loop e s)" and "\<not> restarted (loop e s)"
    and "\<not> pressed (loop e s)"
  using assms
  by (auto simp: loop_def Let_def portal_handle_def checkResetButton_idle split: if_splits)

lemma loop_portal_fails:
  assumes "reconnecting s" "\<not> wifi_connected e" "\<not> resetPin_low e"
    "10000 \<le> millis_reconnect e - lastReconnectAttempt s"
    "cfg_maxReconnectAttempts (config s) \<le> reconnectAttempts s"
    "\<not> reconnect_softAP_ok e"
  shows "reconnecting (loop e s)" and "status (loop e s) = ERROR"
    and "entries (loop e s) = entries s + 1"
    and "attempts_made (loop e s) = attempts_made s"
    and "reconnectAttempts (loop e s) = reconnectAttempts s"
    and "lastReconnectAttempt (loop e s) = lastReconnectAttempt s"
    and "config (loop e s) = config s"
proof -
  have l: "loop e s = snd (startConfigPortal False (reconnect_portal_millis e) s)"
    using assms by (simp add: loop_reconnecting handleReconnection_def reconnecting_def
        not_less [symmetric])
  show "reconnecting (loop e s)" "status (loop e s) = ERROR"
    "entries (loop e s) = entries s + 1" "attempts_made (loop e s) = attempts_made s"
    "reconnectAttempts (loop e s) = reconnectAttempts s"
    "lastReconnectAttempt (loop e s) = lastReconnectAttempt s" "config (loop e s) = config s"
    using assms(1) unfolding l by (simp_all add: reconnecting_def)
qed

lemma failing_run_spaced:
  "reconnecting s \<Longrightarrow> failing_ticks (lastReconnectAttempt s) (es @ [g]) \<Longrightarrow>
   unat (reconnectAttempts s) + length es \<le> unat (cfg_maxReconnectAttempts (config s)) \<Longrightarrow>
     10000 \<le> millis_reconnect g - lastReconnectAttempt (run es s)"
proof (induction es arbitrary: s)
  case Nil
  then show ?case by (simp add: run_Nil)
next
  case (Cons e es)
  have le: "unat (reconnectAttempts s) + Suc (length es)
              \<le> unat (cfg_maxReconnectAttempts (config s))"
    using Cons.prems(3) by simp
  have t: "\<not> wifi_connected e" "\<not> reconnect_join_ok e" "\<not> resetPin_low e"
    "10000 \<le> millis_reconnect e - lastReconnectAttempt s"
    "failing_ticks (millis_reconnect e) (es @ [g])"
    using Cons.prems(2) by simp_all
  note w = word_attempt_less [OF le]
  note a = loop_attempt [OF Cons.prems(1) t(1,2,3,4) w(1)]
  have "10000 \<le> millis_reconnect g - lastReconnectAttempt (run es (loop e s))"
    using a(1) t(5) le by (intro Cons.IH) (simp_all add: a w)
  then show ?case
    by (simp add: run_Cons)
qed

lemma ap_fail_tick_fields:
  "\<not> wifi_connected (ap_fail_tick t)" "\<not> resetPin_low (ap_fail_tick t)"
  "\<not> reconnect_softAP_ok (ap_fail_tick t)" "millis_reconnect (ap_fail_tick t) = t"
  by (simp_all add: ap_fail_tick_def idle_tick_def)

lemma home_manager_ready:
  "reconnecting home_manager" "reconnectAttempts home_manager = 0"
  "cfg_maxReconnectAttempts (config home_manager) = 3"
  "lastReconnectAttempt home_manager = 0" "events home_manager = []"
  by (simp_all add: reconnecting_def home_manager_def demo_manager_def onStatusChange_def
      PicoWiFiManager_begin_def PicoWiFiConfig_ctor_def ConfigPortal_ctor_def)

text \<open>
  Claim C5 as stated fails. When \<^verbatim>\<open>WiFi.softAP\<close> fails at the portal activation,
  \<^verbatim>\<open>startConfigPortal\<close> sets \<open>CONFIG_MODE\<close> and then falls back to \<open>ERROR\<close> with
  \<^verbatim>\<open>_configMode\<close> off. The give-up branch leaves \<^verbatim>\<open>_lastReconnectAttempt\<close> as it was, so
  every later call of \<^verbatim>\<open>loop()\<close> enters \<open>CONFIG_MODE\<close> again: after three failed retries,
  three such calls make three entries.
\<close>

theorem portal_failure_reenters_config_mode:
  "attempts_made three_failures = 3 \<and> entries three_failures = 0
   \<and> \<not> configMode three_failures
   \<and> entries (run [ap_fail_tick 40000, ap_fail_tick 40100, ap_fail_tick 40200] three_failures) = 3
   \<and> status (run [ap_fail_tick 40000, ap_fail_tick 40100, ap_fail_tick 40200] three_failures)
       = ERROR
   \<and> \<not> configMode (run [ap_fail_tick 40000, ap_fail_tick 40100, ap_fail_tick 40200]
          three_failures)
   \<and> attempts_made (run [ap_fail_tick 40000, ap_fail_tick 40100, ap_fail_tick 40200]
          three_failures) = 3"
proof -
  define es where "es = [idle_tick 10000, idle_tick 20000, idle_tick 30000]"
  have S: "three_failures = run es home_manager"
    by (simp add: three_failures_def es_def)
  have ft: "failing_ticks (lastReconnectAttempt home_manager) es"
    by (simp add: es_def home_manager_ready idle_tick_def)
  have len: "unat (reconnectAttempts home_manager) + length es
               \<le> unat (cfg_maxReconnectAttempts (config home_manager))"
    by (simp add: es_def home_manager_ready)
  have r: "reconnecting three_failures" "unat (reconnectAttempts three_failures) = 3"
    "attempts_made three_failures = 3" "entries three_failures = 0"
    "config three_failures = config home_manager"
    using failing_run [OF home_manager_ready(1) ft len]
    by (simp_all add: S es_def home_manager_ready attempts_made_def entries_def)
  have m: "cfg_maxReconnectAttempts (config three_failures) \<le> reconnectAttempts three_failures"
    using r(2) by (simp add: word_le_nat_alt r(5) home_manager_ready)
  have sp: "10000 \<le> millis_reconnect (ap_fail_tick t) - lastReconnectAttempt three_failures"
    if "10000 \<le> t - 30000" for t
    unfolding S using that
    by (intro failing_run_spaced [OF home_manager_ready(1) _ len])
      (simp add: home_manager_ready es_def idle_tick_def ap_fail_tick_def)
  have sp1: "10000 \<le> millis_reconnect (ap_fail_tick 40000) - lastReconnectAttempt three_failures"
    by (rule sp) simp
  have sp2: "10000 \<le> millis_reconnect (ap_fail_tick 40100) - lastReconnectAttempt three_failures"
    by (rule sp) simp
  have sp3: "10000 \<le> millis_reconnect (ap_fail_tick 40200) - lastReconnectAttempt three_failures"
    by (rule sp) simp
  note a1 = loop_portal_fails [OF r(1) ap_fail_tick_fields(1,2) sp1 m ap_fail_tick_fields(3)]
  have m1: "cfg_maxReconnectAttempts (config (loop (ap_fail_tick 40000) three_failures))
              \<le> reconnectAttempts (loop (ap_fail_tick 40000) three_failures)"
    using m by (simp add: a1)
  have sp2': "10000 \<le> millis_reconnect (ap_fail_tick 40100)
                - lastReconnectAttempt (loop (ap_fail_tick 40000) three_failures)"
    using sp2 by (simp add: a1)
  note a2 = loop_portal_fails [OF a1(1) ap_fail_tick_fields(1,2) sp2' m1 ap_fail_tick_fields(3)]
  have m2: "cfg_maxReconnectAttempts
              (config (loop (ap_fail_tick 40100) (loop (ap_fail_tick 40000) three_failures)))
              \<le> reconnectAttempts
                   (loop (ap_fail_tick 40100) (loop (ap_fail_tick 40000) three_failures))"
    using m1 by (simp add: a2)
  have sp3': "10000 \<le> millis_reconnect (ap_fail_tick 40200)
                - lastReconnectAttempt
                    (loop (ap_fail_tick 40100) (loop (ap_fail_tick 40000) three_failures))"
    using sp3 by (simp add: a1 a2)
  note a3 = loop_portal_fails [OF a2(1) ap_fail_tick_fields(1,2) sp3' m2 ap_fail_tick_fields(3)]
  show ?thesis
    using r(1,3,4) a3(1) by (simp add: run_Cons run_Nil a1 a2 a3 reconnecting_def)
qed

text \<open>
  Claim C5, amended: the claim holds when the access point starts at the portal activation.
  With auto-reconnect on and outside config mode, starting from a counter of zero:
  a run \<open>es\<close> of as many calls of \<^verbatim>\<open>loop()\<close> as \<^verbatim>\<open>maxReconnectAttempts\<close>, each at least 10
  seconds after the previous retry and each failing to connect, makes that many retries and
  does not enter config mode; the next such call \<open>g\<close>, on which \<^verbatim>\<open>WiFi.softAP\<close> succeeds,
  enters \<open>CONFIG_MODE\<close> with the portal active, for the first and only time; and over any
  further calls \<open>qs\<close> (without portal requests) during which the manager stays in config mode,
  no retry is started and \<open>CONFIG_MODE\<close> is not entered again.
\<close>

theorem reconnection_gives_up_once:
  assumes "reconnecting s" and "reconnectAttempts s = 0"
    and "length es = unat (cfg_maxReconnectAttempts (config s))"
    and "failing_ticks (lastReconnectAttempt s) (es @ [g])" and "reconnect_softAP_ok g"
    and "stays_in_config qs (loop g (run es s))"
  shows "\<not> configMode (run es s) \<and> entries (run es s) = entries s
     \<and> attempts_made (run es s) = attempts_made s + unat (cfg_maxReconnectAttempts (config s))
     \<and> configMode (loop g (run es s)) \<and> status (loop g (run es s)) = CONFIG_MODE
     \<and> active (portal (loop g (run es s)))
     \<and> entries (loop g (run es s)) = entries s + 1
     \<and> attempts_made (loop g (run es s))
         = attempts_made s + unat (cfg_maxReconnectAttempts (config s))
     \<and> configMode (run qs (loop g (run es s)))
     \<and> status (run qs (loop g (run es s))) = CONFIG_MODE
     \<and> entries (run qs (loop g (run es s))) = entries s + 1
     \<and> attempts_made (run qs (loop g (run es s)))
         = attempts_made s + unat (cfg_maxReconnectAttempts (config s))"
proof -
  have f: "failing_ticks (lastReconnectAttempt s) es"
    using assms(4) by (rule failing_ticks_butlast)
  have r: "reconnecting (run es s)" "attempts_made (run es s) = attempts_made s + length es"
    "entries (run es s) = entries s"
    using failing_run [OF assms(1) f] assms(2,3) by simp_all
  have g: "configMode (loop g (run es s))" "status (loop g (run es s)) = CONFIG_MODE"
    "active (portal (loop g (run es s)))"
    "entries (loop g (run es s)) = entries s + 1"
    "attempts_made (loop g (run es s)) = attempts_made s + length es"
    using failing_run_gives_up [OF assms(1,4) _ assms(5)] assms(2,3) by simp_all
  note q = config_run [OF g(1) assms(6)]
  show ?thesis
    using r g q assms(3) by (simp add: reconnecting_def)
qed

lemma failing_ticks_take: "failing_ticks p es \<Longrightarrow> failing_ticks p (take k es)"
proof (induction es arbitrary: p k)
  case Nil
  then show ?case by simp
next
  case (Cons e es)
  then show ?case by (cases k) simp_all
qed

text \<open>
  Claim C6. Whatever the counter was, a \<^verbatim>\<open>connectWiFi\<close> that reaches the connected state
  returns true with status \<open>CONNECTED\<close> and the counter at 0. When the orchestrator then
  retries on its own, a run of failing calls of \<^verbatim>\<open>loop()\<close> counts up again from 0: after each
  of the first \<^verbatim>\<open>maxReconnectAttempts\<close> calls the counter equals the number of calls made and
  config mode has not been entered; only the call after them starts the portal.
\<close>

theorem successful_join_resets_counter:
  assumes "strlen n \<noteq> 0"
    and "reconnecting (snd (connectWiFi (Some n) pw True s))"
    and "length es = unat (cfg_maxReconnectAttempts (config s))"
    and "failing_ticks (lastReconnectAttempt s) (es @ [g])" and "reconnect_softAP_ok g"
  shows "fst (connectWiFi (Some n) pw True s) = True
     \<and> status (snd (connectWiFi (Some n) pw True s)) = CONNECTED
     \<and> reconnectAttempts (snd (connectWiFi (Some n) pw True s)) = 0
     \<and> (\<forall>k \<le> length es.
           \<not> configMode (run (take k es) (snd (connectWiFi (Some n) pw True s)))
           \<and> unat (reconnectAttempts (run (take k es) (snd (connectWiFi (Some n) pw True s)))) = k
           \<and> entries (run (take k es) (snd (connectWiFi (Some n) pw True s)))
               = entries (snd (connectWiFi (Some n) pw True s)))
     \<and> configMode (loop g (run es (snd (connectWiFi (Some n) pw True s))))
     \<and> status (loop g (run es (snd (connectWiFi (Some n) pw True s)))) = CONFIG_MODE
     \<and> entries (loop g (run es (snd (connectWiFi (Some n) pw True s))))
         = entries (snd (connectWiFi (Some n) pw True s)) + 1"
proof -
  define s1 where "s1 = snd (connectWiFi (Some n) pw True s)"
  have c: "fst (connectWiFi (Some n) pw True s) = True" "status s1 = CONNECTED"
    "reconnectAttempts s1 = 0"
    using connectWiFi_success [OF assms(1), of pw s] by (simp_all add: s1_def)
  have rc: "reconnecting s1" using assms(2) by (simp add: s1_def)
  have cfg: "config s1 = config s" "lastReconnectAttempt s1 = lastReconnectAttempt s"
    by (simp_all add: s1_def)
  have ft: "failing_ticks (lastReconnectAttempt s1) (es @ [g])"
    using assms(4) by (simp add: cfg)
  have pre: "\<not> configMode (run (take k es) s1)
      \<and> unat (reconnectAttempts (run (take k es) s1)) = k
      \<and> entries (run (take k es) s1) = entries s1" if "k \<le> length es" for k
  proof -
    have "failing_ticks (lastReconnectAttempt s1) (take k es)"
      by (rule failing_ticks_take) (rule failing_ticks_butlast [OF ft])
    from failing_run [OF rc this] that assms(3) show ?thesis
      by (simp add: c cfg reconnecting_def min_def)
  qed
  have g: "configMode (loop g (run es s1))" "status (loop g (run es s1)) = CONFIG_MODE"
    "entries (loop g (run es s1)) = entries s1 + 1"
    using failing_run_gives_up [OF rc ft _ assms(5)] assms(3) by (simp_all add: c cfg)
  show ?thesis
    using c pre g unfolding s1_def by blast
qed

lemma home_manager_fields:
  "reconnecting home_manager" "reconnectAttempts home_manager = 0"
  "cfg_maxReconnectAttempts (config home_manager) = 3"
  "lastReconnectAttempt home_manager = 0" "events home_manager = []"
  "resetPin (config home_manager) = 2" "\<not> pressed home_manager"
  "\<not> configMode home_manager" "storage home_manager = home_store"
  "status home_manager = DISCONNECTED"
  by (simp_all add: reconnecting_def home_manager_def demo_manager_def onStatusChange_def
      PicoWiFiManager_begin_def PicoWiFiConfig_ctor_def ConfigPortal_ctor_def)

lemma home_manager_counters: "entries home_manager = 0" "attempts_made home_manager = 0"
  by (simp_all add: entries_def attempts_made_def home_manager_fields)

lemma four_failing_ticks:
  "failing_ticks 0 ([idle_tick 10000, idle_tick 20000, idle_tick 30000] @ [idle_tick 40000])"
  by (simp add: idle_tick_def)

lemma idle_tick_fields:
  "\<not> resetPin_low (idle_tick t)" "request (idle_tick t) = NoRequest"
  "reconnect_softAP_ok (idle_tick t)"
  by (simp_all add: idle_tick_def)

theorem reconnection_gives_up_once_witness:
  "reconnecting home_manager
   \<and> failing_ticks 0 ([idle_tick 10000, idle_tick 20000, idle_tick 30000] @ [idle_tick 40000])
   \<and> stays_in_config [idle_tick 50000, idle_tick 60000]
        (loop (idle_tick 40000) (run [idle_tick 10000, idle_tick 20000, idle_tick 30000] home_manager))
   \<and> \<not> configMode (run [idle_tick 10000, idle_tick 20000, idle_tick 30000] home_manager)
   \<and> attempts_made (run [idle_tick 10000, idle_tick 20000, idle_tick 30000] home_manager) = 3
   \<and> status (run [idle_tick 50000, idle_tick 60000]
        (loop (idle_tick 40000) (run [idle_tick 10000, idle_tick 20000, idle_tick 30000] home_manager)))
       = CONFIG_MODE
   \<and> entries (run [idle_tick 50000, idle_tick 60000]
        (loop (idle_tick 40000) (run [idle_tick 10000, idle_tick 20000, idle_tick 30000] home_manager)))
       = 1
   \<and> attempts_made (run [idle_tick 50000, idle_tick 60000]
        (loop (idle_tick 40000) (run [idle_tick 10000, idle_tick 20000, idle_tick 30000] home_manager)))
       = 3"
proof -
  define es where "es = [idle_tick 10000, idle_tick 20000, idle_tick 30000]"
  define S where "S = loop (idle_tick 40000) (run es home_manager)"
  have len: "length es = unat (cfg_maxReconnectAttempts (config home_manager))"
    by (simp add: es_def home_manager_fields)
  have ft: "failing_ticks (lastReconnectAttempt home_manager) (es @ [idle_tick 40000])"
    using four_failing_ticks by (simp add: es_def home_manager_fields)
  have S: "configMode S" "isInitialized S" "\<not> restarted S" "\<not> pressed S"
    using failing_run_gives_up [OF home_manager_fields(1) ft _ idle_tick_fields(3)] len
    by (simp_all add: S_def home_manager_fields)
  note q1 = loop_config_idle [OF S(2,3,1,4) idle_tick_fields(1,2), of 50000]
  note q2 = loop_config_idle [OF q1(2,3,1,4) idle_tick_fields(1,2), of 60000]
  have st: "stays_in_config [idle_tick 50000, idle_tick 60000] S"
    using q1 q2 by (simp add: idle_tick_fields)
  show ?thesis
    using reconnection_gives_up_once [OF home_manager_fields(1,2) len ft idle_tick_fields(3),
        of "[idle_tick 50000, idle_tick 60000]"] st home_manager_fields(1) four_failing_ticks
    by (simp add: S_def es_def home_manager_counters home_manager_fields)
qed

lemma strlen_Home: "strlen (bytes_of ''Home'') \<noteq> 0"
  by code_simp

theorem successful_join_resets_counter_witness:
  "strlen (bytes_of ''Home'') \<noteq> 0
   \<and> reconnectAttempts (home_manager\<lparr>reconnectAttempts := 2\<rparr>) = 2
   \<and> reconnecting (snd (connectWiFi (Some (bytes_of ''Home'')) (Some (bytes_of ''secret'')) True
        (home_manager\<lparr>reconnectAttempts := 2\<rparr>)))
   \<and> reconnectAttempts (snd (connectWiFi (Some (bytes_of ''Home'')) (Some (bytes_of ''secret''))
        True (home_manager\<lparr>reconnectAttempts := 2\<rparr>))) = 0
   \<and> \<not> configMode (run [idle_tick 10000, idle_tick 20000, idle_tick 30000]
        (snd (connectWiFi (Some (bytes_of ''Home'')) (Some (bytes_of ''secret'')) True
          (home_manager\<lparr>reconnectAttempts := 2\<rparr>))))
   \<and> unat (reconnectAttempts (run [idle_tick 10000, idle_tick 20000, idle_tick 30000]
        (snd (connectWiFi (Some (bytes_of ''Home'')) (Some (bytes_of ''secret'')) True
          (home_manager\<lparr>reconnectAttempts := 2\<rparr>))))) = 3
   \<and> configMode (loop (idle_tick 40000) (run [idle_tick 10000, idle_tick 20000, idle_tick 30000]
        (snd (connectWiFi (Some (bytes_of ''Home'')) (Some (bytes_of ''secret'')) True
          (home_manager\<lparr>reconnectAttempts := 2\<rparr>)))))"
proof -
  define s where "s = home_manager\<lparr>reconnectAttempts := 2\<rparr>"
  define es where "es = [idle_tick 10000, idle_tick 20000, idle_tick 30000]"
  have f: "config s = config home_manager" "lastReconnectAttempt s = 0"
    "reconnecting s" "reconnectAttempts s = 2"
    using home_manager_fields(1) by (simp_all add: s_def home_manager_fields reconnecting_def)
  have rc: "reconnecting (snd (connectWiFi (Some (bytes_of ''Home'')) (Some (bytes_of ''secret''))
      True s))"
    using f(3) connectWiFi_success [OF strlen_Home, of "Some (bytes_of ''secret'')" s]
    by (simp add: reconnecting_def)
  have len: "length es = unat (cfg_maxReconnectAttempts (config s))"
    by (simp add: es_def f home_manager_fields)
  have ft: "failing_ticks (lastReconnectAttempt s) (es @ [idle_tick 40000])"
    using four_failing_ticks by (simp add: es_def f)
  note t = successful_join_resets_counter [OF strlen_Home rc len ft idle_tick_fields(3)]
  have "3 \<le> length es" by (simp add: es_def)
  with t have "\<not> configMode (run (take 3 es) (snd (connectWiFi (Some (bytes_of ''Home''))
        (Some (bytes_of ''secret'')) True s)))
     \<and> unat (reconnectAttempts (run (take 3 es) (snd (connectWiFi (Some (bytes_of ''Home''))
        (Some (bytes_of ''secret'')) True s)))) = 3"
    by blast
  then show ?thesis
    using t rc strlen_Home f(4) by (simp add: es_def s_def)
qed

section \<open>The reset button\<close>

lemma clear_eq: "clear w = WiFiCredentials_ctor"
  by (cases w) (simp add: clear_def WiFiCredentials_ctor_def)

lemma clearAll_data:
  "wifi (data (clearAll pad sm)) = WiFiCredentials_ctor"
  "network (data (clearAll pad sm)) = NetworkConfig_ctor pad"
  "device (data (clearAll pad sm)) = DeviceConfig_ctor"
  "persisted (clearAll pad sm) = image (data (clearAll pad sm))"
  "initialized (clearAll pad sm) = initialized sm"
  "EEPROM (clearAll pad sm) = image (data (clearAll pad sm)) @ drop 236 (EEPROM sm)"
  by (simp_all add: clearAll_def saveToEEPROM_fields saveToEEPROM_persisted clear_eq)
    (simp add: saveToEEPROM_def Let_def EEPROM_put_def)

lemma clearAll_no_credentials: "\<not> hasWiFiCredentials (clearAll pad sm)"
  by (simp add: hasWiFiCredentials_def clearAll_data WiFiCredentials_ctor_def)

lemma image_nth_valid: "image d ! 108 = valid (wifi d)"
  by (simp add: image_def nth_append image_WiFiCredentials_def)

lemma parse_valid: "valid (wifi (parse (image d))) = valid (wifi d)"
  by (simp add: parse_def parse_WiFiCredentials_def slice_def image_nth_valid)

lemma begin_after_clearAll:
  "\<not> hasWiFiCredentials (snd (StorageManager_begin sz q
        (StorageManager_ctor q' (EEPROM (clearAll pad sm)))))"
  by (simp add: StorageManager_begin_def loadFromEEPROM_def StorageManager_ctor_def
      hasWiFiCredentials_def clearAll_data EEPROM_get_def parse_valid WiFiCredentials_ctor_def
      saveToEEPROM_fields initializeDefaults_def StorageData_ctor_def Let_def)

lemma held_ticks:
  "pressed s \<Longrightarrow> list_all resetPin_low hs \<Longrightarrow> fold checkResetButton hs s = s"
  by (induction hs) (simp_all add: checkResetButton_def)

lemma press_release_eq:
  assumes "resetPin (config s) \<noteq> 255" "\<not> pressed s" "resetPin_low p"
    "list_all resetPin_low hs" "\<not> resetPin_low r"
  shows "press_release p hs r s =
     (let s1 = s\<lparr>pressStart := millis_button p, pressed := False\<rparr>;
          d = millis_button r - millis_button p
      in if 3000 < d then reset (fresh_pad r) s1
         else if 100 < d
         then (if \<not> configMode s then snd (startConfigPortal (button_softAP_ok r) (button_portal_millis r) s1)
               else s1)
         else s1)"
proof -
  have p: "checkResetButton p s = s\<lparr>pressed := True, pressStart := millis_button p\<rparr>"
    using assms(1,2,3) by (simp add: checkResetButton_def)
  have h: "fold checkResetButton hs (s\<lparr>pressed := True, pressStart := millis_button p\<rparr>)
           = s\<lparr>pressed := True, pressStart := millis_button p\<rparr>"
    using assms(4) by (intro held_ticks) simp_all
  have r: "checkResetButton r (s\<lparr>pressed := True, pressStart := millis_button p\<rparr>) =
     (let s1 = s\<lparr>pressStart := millis_button p, pressed := False\<rparr>;
          d = millis_button r - millis_button p
      in if 3000 < d then reset (fresh_pad r) s1
         else if 100 < d
         then (if \<not> configMode s then snd (startConfigPortal (button_softAP_ok r) (button_portal_millis r) s1)
               else s1)
         else s1)"
    unfolding checkResetButton_def using assms(1,5) by (simp add: Let_def)
  show ?thesis
    unfolding press_release_def p h by (rule r)
qed


lemma startConfigPortal_portal:
  "portal (snd (startConfigPortal ok t s))
     = (if ok then (portal s)\<lparr>active := True, portal_startTime := t\<rparr> else portal s)"
  by (simp add: startConfigPortal_def portal_start_def Let_def split_def)

lemma startConfigPortal_softAP:
  "WiFi_softAP (c_str (deviceName (config s)))
     (if strlen (apPassword (config s)) > 0 then Some (c_str (apPassword (config s))) else None)
   \<in> set (events (snd (startConfigPortal ok t s)))"
  by (simp add: startConfigPortal_def portal_start_def Let_def split_def setStatus_events)

lemma home_manager_portal: "\<not> active (portal home_manager)" "timeout (portal home_manager) = 300000"
  "isInitialized home_manager" "\<not> restarted home_manager"
  by (simp_all add: home_manager_def demo_manager_def onStatusChange_def
      PicoWiFiManager_begin_def ConfigPortal_ctor_def)

lemma home_store_has_credentials: "hasWiFiCredentials home_store"
  by (simp add: hasWiFiCredentials_def initialized_home_store data_home_store home_record_def)

lemma button_tick_fields:
  "resetPin_low (button_tick t b) = b" "millis_button (button_tick t b) = t"
  "button_softAP_ok (button_tick t b)" "fresh_pad (button_tick t b) = [0, 0, 0]"
  "button_portal_millis (button_tick t b) = t + 1100"
  "\<not> resetPin_low (button_ap_fail_tick t)" "millis_button (button_ap_fail_tick t) = t"
  "\<not> button_softAP_ok (button_ap_fail_tick t)"
  by (simp_all add: button_tick_def button_ap_fail_tick_def idle_tick_def)

text \<open>
  Claim C7 as stated fails: a release after a hold of 500 ms, with the portal inactive, does
  not start the portal when \<^verbatim>\<open>WiFi.softAP\<close> fails; \<^verbatim>\<open>startConfigPortal\<close> then leaves the
  status \<open>ERROR\<close>, the portal inactive and \<^verbatim>\<open>_configMode\<close> off.
\<close>

theorem short_press_without_access_point:
  "resetPin (config home_manager) = 2
   \<and> \<not> active (portal home_manager) \<and> \<not> configMode home_manager
   \<and> millis_button (button_ap_fail_tick 1500) - millis_button (button_tick 1000 True) = 500
   \<and> \<not> active (portal (press_release (button_tick 1000 True) [] (button_ap_fail_tick 1500)
          home_manager))
   \<and> status (press_release (button_tick 1000 True) [] (button_ap_fail_tick 1500) home_manager)
       = ERROR
   \<and> \<not> configMode (press_release (button_tick 1000 True) [] (button_ap_fail_tick 1500)
          home_manager)"
proof -
  have a: "resetPin (config home_manager) \<noteq> 255" "\<not> pressed home_manager"
    by (simp_all add: home_manager_fields)
  have "press_release (button_tick 1000 True) [] (button_ap_fail_tick 1500) home_manager
     = snd (startConfigPortal False (button_portal_millis (button_ap_fail_tick 1500))
         (home_manager\<lparr>pressStart := 1000, pressed := False\<rparr>))"
    using press_release_eq [OF a, of "button_tick 1000 True" "[]" "button_ap_fail_tick 1500"]
    by (simp add: button_tick_fields home_manager_fields)
  then show ?thesis
    by (simp add: home_manager_fields home_manager_portal button_tick_fields
        startConfigPortal_portal)
qed

text \<open>
  Claim C7, amended. With the reset button enabled (\<^verbatim>\<open>resetPin\<close> not 255), for a
  press-and-release cycle whose hold time is \<^verbatim>\<open>millis()\<close> at the release call minus
  \<^verbatim>\<open>millis()\<close> at the press call:
  more than 3000 ms runs \<^verbatim>\<open>reset()\<close>, after which the device is restarted, the stored record
  holds the cleared defaults on the medium too, \<^verbatim>\<open>hasWiFiCredentials()\<close> is false, and stays
  false when the store is opened after the restart;
  more than 100 and at most 3000 ms, with the manager outside config mode and the portal
  inactive, calls \<^verbatim>\<open>startConfigPortal\<close>: \<^verbatim>\<open>WiFi.softAP\<close> is called with the configured name and
  password, and the portal is active, in \<open>CONFIG_MODE\<close>, with its start time read by
  \<^verbatim>\<open>ConfigPortal::start\<close>, exactly when the access point came up, the status being \<open>ERROR\<close>
  and the portal inactive otherwise; with the manager in config mode and the portal active,
  nothing changes but the button bookkeeping; the storage is untouched either way;
  at most 100 ms changes nothing but the button bookkeeping.
\<close>

theorem reset_button_cycle:
  assumes "resetPin (config s) \<noteq> 255" and "\<not> pressed s" and "resetPin_low p"
    and "list_all resetPin_low hs" and "\<not> resetPin_low r"
  shows "(3000 < millis_button r - millis_button p \<longrightarrow>
            press_release p hs r s
              = reset (fresh_pad r) (s\<lparr>pressStart := millis_button p, pressed := False\<rparr>)
            \<and> restarted (press_release p hs r s)
            \<and> \<not> hasWiFiCredentials (storage (press_release p hs r s))
            \<and> wifi (data (storage (press_release p hs r s))) = WiFiCredentials_ctor
            \<and> network (data (storage (press_release p hs r s))) = NetworkConfig_ctor (fresh_pad r)
            \<and> device (data (storage (press_release p hs r s))) = DeviceConfig_ctor
            \<and> persisted (storage (press_release p hs r s))
                = image (data (storage (press_release p hs r s)))
            \<and> \<not> hasWiFiCredentials (snd (StorageManager_begin 512 q
                   (StorageManager_ctor q (EEPROM (storage (press_release p hs r s)))))))
     \<and> (100 < millis_button r - millis_button p \<and> millis_button r - millis_button p \<le> 3000
          \<and> \<not> configMode s \<and> \<not> active (portal s) \<longrightarrow>
            press_release p hs r s
              = snd (startConfigPortal (button_softAP_ok r) (button_portal_millis r)
                      (s\<lparr>pressStart := millis_button p, pressed := False\<rparr>))
            \<and> WiFi_softAP (c_str (deviceName (config s)))
                 (if strlen (apPassword (config s)) > 0
                  then Some (c_str (apPassword (config s))) else None)
                \<in> set (events (press_release p hs r s))
            \<and> storage (press_release p hs r s) = storage s
            \<and> restarted (press_release p hs r s) = restarted s
            \<and> active (portal (press_release p hs r s)) = button_softAP_ok r
            \<and> configMode (press_release p hs r s) = button_softAP_ok r
            \<and> status (press_release p hs r s)
                = (if button_softAP_ok r then CONFIG_MODE else ERROR)
            \<and> (button_softAP_ok r \<longrightarrow>
                  portal_startTime (portal (press_release p hs r s)) = button_portal_millis r))
     \<and> (100 < millis_button r - millis_button p \<and> millis_button r - millis_button p \<le> 3000
          \<and> configMode s \<and> active (portal s) \<longrightarrow>
            press_release p hs r s = s\<lparr>pressStart := millis_button p, pressed := False\<rparr>)
     \<and> (millis_button r - millis_button p \<le> 100 \<longrightarrow>
            press_release p hs r s = s\<lparr>pressStart := millis_button p, pressed := False\<rparr>)"
proof -
  note e = press_release_eq [OF assms]
  have long: "3000 < millis_button r - millis_button p \<Longrightarrow> 100 < millis_button r - millis_button p"
    by (simp add: word_less_nat_alt)
  have ap: "WiFi_softAP (c_str (deviceName (config s)))
       (if strlen (apPassword (config s)) > 0 then Some (c_str (apPassword (config s))) else None)
     \<in> set (events (snd (startConfigPortal (button_softAP_ok r) (button_portal_millis r)
              (s\<lparr>pressStart := millis_button p, pressed := False\<rparr>))))"
    using startConfigPortal_softAP [of "s\<lparr>pressStart := millis_button p, pressed := False\<rparr>"
        "button_softAP_ok r" "button_portal_millis r"]
    by (simp cong: if_cong)
  show ?thesis
    unfolding e Let_def using ap
    by (auto simp: clearAll_data(1-5) clearAll_no_credentials begin_after_clearAll not_less
        startConfigPortal_portal dest: long split: if_splits)
qed

lemma portal_started_fields:
  "portal_started_manager
     = snd (startConfigPortal True 2600 (home_manager\<lparr>pressStart := 1000, pressed := False\<rparr>))"
  "isInitialized portal_started_manager" "\<not> restarted portal_started_manager"
  "configMode portal_started_manager" "active (portal portal_started_manager)"
  "timeout (portal portal_started_manager) = 300000"
  "portal_startTime (portal portal_started_manager) = 2600"
  "\<not> pressed portal_started_manager" "resetPin (config portal_started_manager) \<noteq> 255"
proof -
  have a: "resetPin (config home_manager) \<noteq> 255" "\<not> pressed home_manager"
    by (simp_all add: home_manager_fields)
  show e: "portal_started_manager
     = snd (startConfigPortal True 2600 (home_manager\<lparr>pressStart := 1000, pressed := False\<rparr>))"
    unfolding portal_started_manager_def
    using press_release_eq [OF a, of "button_tick 1000 True" "[]" "button_tick 1500 False"]
    by (simp add: button_tick_fields home_manager_fields)
  show "isInitialized portal_started_manager" "\<not> restarted portal_started_manager"
    "configMode portal_started_manager" "active (portal portal_started_manager)"
    "timeout (portal portal_started_manager) = 300000"
    "portal_startTime (portal portal_started_manager) = 2600"
    "\<not> pressed portal_started_manager" "resetPin (config portal_started_manager) \<noteq> 255"
    unfolding e
    by (simp_all add: startConfigPortal_portal home_manager_portal home_manager_fields)
qed

text \<open>
  The state after the portal's own timeout is outside the amended claim. There
  \<^verbatim>\<open>_configMode\<close> is still set while the portal has stopped, and a release after 500 ms
  changes nothing but the button bookkeeping, although the comment in \<^verbatim>\<open>checkResetButton\<close>
  announces a restart of the portal.
\<close>

lemma short_press_after_portal_timeout:
  "timed_out_manager = portal_stop portal_started_manager
   \<and> configMode timed_out_manager \<and> \<not> active (portal timed_out_manager)
   \<and> press_release (button_tick 500000 True) [] (button_tick 500500 False) timed_out_manager
       = timed_out_manager\<lparr>pressStart := 500000, pressed := False\<rparr>"
proof -
  note f = portal_started_fields(2-9)
  have h: "portal_handle (idle_tick 400000) portal_started_manager
           = portal_stop portal_started_manager"
    using f by (simp add: portal_handle_def idle_tick_def)
  have t: "timed_out_manager = portal_stop portal_started_manager"
    unfolding timed_out_manager_def
    using f by (simp add: loop_def h checkResetButton_idle idle_tick_fields)
  have a: "resetPin (config timed_out_manager) \<noteq> 255" "\<not> pressed timed_out_manager"
    "configMode timed_out_manager" "\<not> active (portal timed_out_manager)"
    unfolding t using f by simp_all
  have "press_release (button_tick 500000 True) [] (button_tick 500500 False) timed_out_manager
       = timed_out_manager\<lparr>pressStart := 500000, pressed := False\<rparr>"
    using press_release_eq [OF a(1,2), of "button_tick 500000 True" "[]"
        "button_tick 500500 False"] a(3)
    by (simp add: button_tick_fields)
  then show ?thesis
    using t a by simp
qed

theorem reset_button_cycle_witness:
  "hasWiFiCredentials (storage home_manager)
   \<and> restarted (press_release (button_tick 1000 True)
         [button_tick 2000 True, button_tick 3000 True] (button_tick 4500 False) home_manager)
   \<and> \<not> hasWiFiCredentials (storage (press_release (button_tick 1000 True)
         [button_tick 2000 True, button_tick 3000 True] (button_tick 4500 False) home_manager))
   \<and> active (portal portal_started_manager)
   \<and> configMode portal_started_manager
   \<and> status portal_started_manager = CONFIG_MODE
   \<and> portal_startTime (portal portal_started_manager) = 2600
   \<and> storage portal_started_manager = home_store
   \<and> press_release (button_tick 5000 True) [] (button_tick 5500 False) portal_started_manager
       = portal_started_manager\<lparr>pressStart := 5000, pressed := False\<rparr>
   \<and> press_release (button_tick 1000 True) [] (button_tick 1050 False) home_manager
       = home_manager\<lparr>pressStart := 1000, pressed := False\<rparr>"
proof -
  have a: "resetPin (config home_manager) \<noteq> 255" "\<not> pressed home_manager"
    by (simp_all add: home_manager_fields)
  note b = portal_started_fields(9,8)
  have p: "resetPin_low (button_tick 1000 True)" "\<not> resetPin_low (button_tick 4500 False)"
    "\<not> resetPin_low (button_tick 1500 False)" "\<not> resetPin_low (button_tick 1050 False)"
    "list_all resetPin_low [button_tick 2000 True, button_tick 3000 True]"
    "list_all resetPin_low []"
    "resetPin_low (button_tick 5000 True)" "\<not> resetPin_low (button_tick 5500 False)"
    by (simp_all add: button_tick_fields)
  note long = reset_button_cycle [OF a p(1) p(5) p(2), of zero_padding]
  note short = reset_button_cycle [OF a p(1) p(6) p(3), of zero_padding]
  note ignored = reset_button_cycle [OF b p(7) p(6) p(8), of zero_padding]
  note tiny = reset_button_cycle [OF a p(1) p(6) p(4), of zero_padding]
  have d: "3000 < millis_button (button_tick 4500 False) - millis_button (button_tick 1000 True)"
    "100 < millis_button (button_tick 1500 False) - millis_button (button_tick 1000 True)"
    "millis_button (button_tick 1500 False) - millis_button (button_tick 1000 True) \<le> 3000"
    "millis_button (button_tick 1050 False) - millis_button (button_tick 1000 True) \<le> 100"
    "100 < millis_button (button_tick 5500 False) - millis_button (button_tick 5000 True)"
    "millis_button (button_tick 5500 False) - millis_button (button_tick 5000 True) \<le> 3000"
    by (simp_all add: button_tick_fields)
  have c: "\<not> configMode home_manager" "\<not> active (portal home_manager)"
    "configMode portal_started_manager" "active (portal portal_started_manager)"
    by (simp_all add: home_manager_fields home_manager_portal portal_started_fields(4,5))
  have "restarted (press_release (button_tick 1000 True)
         [button_tick 2000 True, button_tick 3000 True] (button_tick 4500 False) home_manager)
   \<and> \<not> hasWiFiCredentials (storage (press_release (button_tick 1000 True)
         [button_tick 2000 True, button_tick 3000 True] (button_tick 4500 False) home_manager))"
    using long d(1) by blast
  moreover have "active (portal (press_release (button_tick 1000 True) []
         (button_tick 1500 False) home_manager)) = button_softAP_ok (button_tick 1500 False)
   \<and> configMode (press_release (button_tick 1000 True) [] (button_tick 1500 False)
         home_manager) = button_softAP_ok (button_tick 1500 False)
   \<and> status (press_release (button_tick 1000 True) [] (button_tick 1500 False) home_manager)
       = (if button_softAP_ok (button_tick 1500 False) then CONFIG_MODE else ERROR)
   \<and> storage (press_release (button_tick 1000 True) [] (button_tick 1500 False) home_manager)
       = storage home_manager"
    using short d(2,3) c(1,2) by blast
  moreover have "press_release (button_tick 5000 True) [] (button_tick 5500 False)
         portal_started_manager
       = portal_started_manager\<lparr>pressStart := millis_button (button_tick 5000 True),
           pressed := False\<rparr>"
    using ignored d(5,6) c(3,4) by blast
  moreover have "press_release (button_tick 1000 True) [] (button_tick 1050 False) home_manager
       = home_manager\<lparr>pressStart := millis_button (button_tick 1000 True), pressed := False\<rparr>"
    using tiny d(4) by blast
  ultimately show ?thesis
    using home_store_has_credentials portal_started_fields(7)
    by (simp add: home_manager_fields button_tick_fields portal_started_manager_def)
qed

end
